theory Spec2Isabelle
  imports Main "HOL-Library.AList"
begin

section \<open>Registry credential resolution of the Docker provider\<close>

text \<open>
  A shallow embedding of \<^verbatim>\<open>docker/provider.go\<close>: the functions
  \<^verbatim>\<open>providerSetToRegistryAuth\<close>, \<^verbatim>\<open>newAuthConfigurations\<close>,
  \<^verbatim>\<open>parseDockerConfig\<close> and \<^verbatim>\<open>authConfigs\<close>.

  Go strings are byte sequences, and so is \<^typ>\<open>string\<close>. A Go map is an association
  list with distinct keys; \<^verbatim>\<open>m[k] = v\<close> is \<^const>\<open>AList.update\<close>. The order in which
  \<^verbatim>\<open>range\<close> visits a map is not fixed by Go: a map that comes from outside is listed
  in the order in which it is visited, and the visiting order of a map built here is a
  component of the environment.
\<close>

subsection \<open>Data\<close>

text \<open>\<^verbatim>\<open>types.AuthConfig\<close> of the Docker API; every field is a Go string.\<close>

record AuthConfig =
  Username :: string
  Password :: string
  Auth :: string
  Email :: string
  ServerAddress :: string
  IdentityToken :: string
  RegistryToken :: string

text \<open>The zero value \<^verbatim>\<open>types.AuthConfig{}\<close>.\<close>

definition zeroAuthConfig :: AuthConfig where
  "zeroAuthConfig =
     \<lparr>Username = [], Password = [], Auth = [], Email = [], ServerAddress = [],
      IdentityToken = [], RegistryToken = []\<rparr>"

text \<open>\<^verbatim>\<open>dockerConfig\<close>: one entry of the credentials file.\<close>

record dockerConfig =
  confAuth :: string
  confEmail :: string

text \<open>
  One \<^verbatim>\<open>registry_auth\<close> block, the \<^verbatim>\<open>map[string]interface{}\<close> that
  \<^verbatim>\<open>authSet.List()\<close> yields. The code reads \<^verbatim>\<open>address\<close> and \<^verbatim>\<open>password\<close> with a plain
  type assertion, and \<^verbatim>\<open>username\<close> and \<^verbatim>\<open>config_file\<close> with the two-valued lookup
  (\<^verbatim>\<open>v, ok := auth[key]\<close>): \<open>None\<close> is the absent key.
\<close>

record registry_auth =
  address :: string
  username :: "string option"
  password :: string
  config_file :: "string option"

text \<open>
  Errors of the file parser: the error of \<^verbatim>\<open>json.Unmarshal\<close> with its message, the
  \<^verbatim>\<open>base64.CorruptInputError\<close> of the decoder (its byte offset is not modelled), and the
  package's own \<^verbatim>\<open>ErrCannotParseDockercfg\<close>.
\<close>

datatype parse_error =
    UnmarshalError string
  | CorruptInputError
  | ErrCannotParseDockercfg

text \<open>
  Errors of \<^verbatim>\<open>providerSetToRegistryAuth\<close>: the error of \<^verbatim>\<open>user.Current\<close> returned as it
  is, and the three \<^verbatim>\<open>fmt.Errorf\<close> values: opening failed (with the text of the cause),
  parsing failed (with the cause), and the registry was not found (with the whole
  message).
\<close>

datatype error =
    UserCurrentError string
  | OpenError string
  | ParseError parse_error
  | RegistryNotFound string

text \<open>
  The operating system and the JSON library, as seen by this file:
  \<^item> \<open>userCurrent\<close>: \<^verbatim>\<open>user.Current()\<close>, an error text or the home directory;
  \<^item> \<open>osOpen\<close>: \<^verbatim>\<open>os.Open\<close> followed by \<^verbatim>\<open>buf.ReadFrom\<close>, an error text of the open or
    the bytes read (the code ignores the error of the read);
  \<^item> \<open>unmarshalWrapper\<close>: \<^verbatim>\<open>json.Unmarshal\<close> into the struct with the one field
    \<^verbatim>\<open>Auths map[string]dockerConfig `json:"auths"`\<close>, giving that field;
  \<^item> \<open>unmarshalConfs\<close>: \<^verbatim>\<open>json.Unmarshal\<close> into a \<^verbatim>\<open>map[string]dockerConfig\<close>;
  \<^item> \<open>rangeConfigs\<close>: the order in which \<^verbatim>\<open>range auths.Configs\<close> visits the entries.
\<close>

record env =
  userCurrent :: "string + string"
  osOpen :: "string \<Rightarrow> string + string"
  unmarshalWrapper :: "string \<Rightarrow> string + (string \<times> dockerConfig) list"
  unmarshalConfs :: "string \<Rightarrow> string + (string \<times> dockerConfig) list"
  rangeConfigs :: "(string \<times> AuthConfig) list \<Rightarrow> (string \<times> AuthConfig) list"

subsection \<open>Address normalization\<close>

text \<open>
  Modelled from the spec: \<^verbatim>\<open>normalizeRegistryAddress\<close> is called by
  \<^verbatim>\<open>providerSetToRegistryAuth\<close> and defined in another file of the package, which is
  not among the sources. The spec: "strip a trailing \<^verbatim>\<open>/\<close> if present; this is the
  entirety of the normalization".
\<close>

definition normalizeRegistryAddress :: "string \<Rightarrow> string" where
  "normalizeRegistryAddress a =
     (if a \<noteq> [] \<and> last a = CHR ''/'' then butlast a else a)"

subsection \<open>Base64, standard alphabet with padding\<close>

text \<open>
  \<^verbatim>\<open>base64.StdEncoding\<close> of the Go library. \<open>encodeStd\<close> is its alphabet, \<open>decodeMap\<close>
  the inverse table (\<open>None\<close> is the library's \<^verbatim>\<open>0xFF\<close>).
\<close>

definition encodeStd :: string where
  "encodeStd = ''ABCDEFGHIJKLMNOPQRSTUVWXYZabcdefghijklmnopqrstuvwxyz0123456789+/''"

definition padChar :: char where
  "padChar = CHR ''=''"

fun indexOf :: "'a \<Rightarrow> 'a list \<Rightarrow> nat option" where
  "indexOf c [] = None"
| "indexOf c (x # xs) =
     (if c = x then Some 0 else case indexOf c xs of None \<Rightarrow> None | Some i \<Rightarrow> Some (Suc i))"

definition decodeMap :: "char \<Rightarrow> nat option" where
  "decodeMap c = indexOf c encodeStd"

definition enc6 :: "nat \<Rightarrow> char" where
  "enc6 n = encodeStd ! (n mod 64)"

text \<open>
  \<^verbatim>\<open>EncodeToString\<close>: three bytes give four characters; a last group of one or two bytes
  is padded with \<^verbatim>\<open>=\<close>.
\<close>

fun EncodeToString :: "string \<Rightarrow> string" where
  "EncodeToString [] = []"
| "EncodeToString [a] =
     (let x = (of_char a :: nat)
      in [enc6 (x div 4), enc6 (x mod 4 * 16), padChar, padChar])"
| "EncodeToString [a, b] =
     (let x = (of_char a :: nat); y = (of_char b :: nat)
      in [enc6 (x div 4), enc6 (x mod 4 * 16 + y div 16), enc6 (y mod 16 * 4), padChar])"
| "EncodeToString (a # b # c # rest) =
     (let x = (of_char a :: nat); y = (of_char b :: nat); z = (of_char c :: nat)
      in [enc6 (x div 4), enc6 (x mod 4 * 16 + y div 16),
          enc6 (y mod 16 * 4 + z div 64), enc6 (z mod 64)] @ EncodeToString rest)"

text \<open>
  The 24-bit value of a quantum, \<^verbatim>\<open>d0<<18 | d1<<12 | d2<<6 | d3\<close>, and its three bytes
  \<^verbatim>\<open>byte(val>>16)\<close>, \<^verbatim>\<open>byte(val>>8)\<close>, \<^verbatim>\<open>byte(val)\<close>.
\<close>

definition quantumVal :: "nat \<Rightarrow> nat \<Rightarrow> nat \<Rightarrow> nat \<Rightarrow> nat" where
  "quantumVal d0 d1 d2 d3 = d0 * 262144 + d1 * 4096 + d2 * 64 + d3"

definition byteAt :: "nat \<Rightarrow> nat \<Rightarrow> char" where
  "byteAt val sh = char_of (val div 2 ^ sh)"

text \<open>
  The decoder on input without line breaks: quanta of four characters of the alphabet;
  the last quantum may end in \<^verbatim>\<open>==\<close> (one byte) or \<^verbatim>\<open>=\<close> (two bytes), nothing may follow
  the padding, and a group of fewer than four characters is corrupt. The encoding is
  not strict: the unused low bits of a padded quantum are not checked.
\<close>

fun decodeQuanta :: "string \<Rightarrow> parse_error + string" where
  "decodeQuanta [] = Inr []"
| "decodeQuanta (a # b # c # d # rest) =
     (case (decodeMap a, decodeMap b) of
        (Some d0, Some d1) \<Rightarrow>
          (if c = padChar then
             (if d = padChar \<and> rest = [] then Inr [byteAt (quantumVal d0 d1 0 0) 16]
              else Inl CorruptInputError)
           else case decodeMap c of
             None \<Rightarrow> Inl CorruptInputError
           | Some d2 \<Rightarrow>
               (if d = padChar then
                  (if rest = []
                   then Inr [byteAt (quantumVal d0 d1 d2 0) 16, byteAt (quantumVal d0 d1 d2 0) 8]
                   else Inl CorruptInputError)
                else case decodeMap d of
                  None \<Rightarrow> Inl CorruptInputError
                | Some d3 \<Rightarrow>
                    (case decodeQuanta rest of
                       Inl e \<Rightarrow> Inl e
                     | Inr bs \<Rightarrow>
                         Inr (byteAt (quantumVal d0 d1 d2 d3) 16 #
                              byteAt (quantumVal d0 d1 d2 d3) 8 #
                              byteAt (quantumVal d0 d1 d2 d3) 0 # bs))))
      | _ \<Rightarrow> Inl CorruptInputError)"
| "decodeQuanta _ = Inl CorruptInputError"

text \<open>
  \<^verbatim>\<open>DecodeString\<close>: carriage returns and line feeds are skipped wherever they stand.
\<close>

definition DecodeString :: "string \<Rightarrow> parse_error + string" where
  "DecodeString s = decodeQuanta (filter (\<lambda>c. c \<noteq> CHR 0x0A \<and> c \<noteq> CHR 0x0D) s)"

subsection \<open>String functions of the Go library\<close>

text \<open>\<^verbatim>\<open>strings.SplitN(s, ":", 2)\<close>: at most two parts, cut at the first colon.\<close>

definition SplitN2 :: "string \<Rightarrow> string list" where
  "SplitN2 s =
     (if CHR '':'' \<in> set s
      then [takeWhile (\<lambda>c. c \<noteq> CHR '':'') s, tl (dropWhile (\<lambda>c. c \<noteq> CHR '':'') s)]
      else [s])"

text \<open>\<^verbatim>\<open>strings.HasPrefix(s, p)\<close>.\<close>

definition HasPrefix :: "string \<Rightarrow> string \<Rightarrow> bool" where
  "HasPrefix s p = (take (length p) s = p)"

text \<open>\<^verbatim>\<open>strings.Replace(s, old, new, 1)\<close> for a one-byte \<^verbatim>\<open>old\<close>.\<close>

fun Replace1 :: "string \<Rightarrow> char \<Rightarrow> string \<Rightarrow> string" where
  "Replace1 [] old new = []"
| "Replace1 (c # cs) old new = (if c = old then new @ cs else c # Replace1 cs old new)"

subsection \<open>The credentials file\<close>

text \<open>
  \<^verbatim>\<open>parseDockerConfig\<close>: the wrapped shape when it unmarshals without error to a
  non-empty \<^verbatim>\<open>Auths\<close>, else the flat shape, whose error is returned as it is.
\<close>

definition parseDockerConfig :: "env \<Rightarrow> string \<Rightarrow> parse_error + (string \<times> dockerConfig) list" where
  "parseDockerConfig e byteData =
     (case unmarshalWrapper e byteData of
        Inr auths \<Rightarrow>
          (if length auths > 0 then Inr auths
           else case unmarshalConfs e byteData of
                  Inl err \<Rightarrow> Inl (UnmarshalError err)
                | Inr confs \<Rightarrow> Inr confs)
      | Inl _ \<Rightarrow>
          (case unmarshalConfs e byteData of
             Inl err \<Rightarrow> Inl (UnmarshalError err)
           | Inr confs \<Rightarrow> Inr confs))"

text \<open>
  Lines 272 to 279 of \<^verbatim>\<open>authConfigs\<close>: decode the \<^verbatim>\<open>auth\<close> value and split it; the
  result is \<^verbatim>\<open>userpass\<close>, of length two.
\<close>

definition decodeUserpass :: "string \<Rightarrow> parse_error + string list" where
  "decodeUserpass auth =
     (case DecodeString auth of
        Inl err \<Rightarrow> Inl err
      | Inr data \<Rightarrow>
          (let userpass = SplitN2 data
           in if length userpass \<noteq> 2 then Inl ErrCannotParseDockercfg else Inr userpass))"

text \<open>
  The loop of \<^verbatim>\<open>authConfigs\<close> over \<^verbatim>\<open>confs\<close>, listed in the order visited, with the map
  \<^verbatim>\<open>c.Configs\<close> built so far.
\<close>

fun authConfigsLoop ::
  "(string \<times> dockerConfig) list \<Rightarrow> (string \<times> AuthConfig) list
     \<Rightarrow> parse_error + (string \<times> AuthConfig) list" where
  "authConfigsLoop [] c = Inr c"
| "authConfigsLoop ((reg, conf) # rest) c =
     (if confAuth conf = [] then authConfigsLoop rest c
      else case decodeUserpass (confAuth conf) of
        Inl err \<Rightarrow> Inl err
      | Inr userpass \<Rightarrow>
          authConfigsLoop rest
            (AList.update reg
               \<lparr>Username = userpass ! 0, Password = userpass ! 1, Auth = confAuth conf,
                Email = confEmail conf, ServerAddress = reg,
                IdentityToken = [], RegistryToken = []\<rparr> c))"

definition authConfigs ::
  "(string \<times> dockerConfig) list \<Rightarrow> parse_error + (string \<times> AuthConfig) list" where
  "authConfigs confs = authConfigsLoop confs []"

definition newAuthConfigurations ::
  "env \<Rightarrow> string \<Rightarrow> parse_error + (string \<times> AuthConfig) list" where
  "newAuthConfigurations e r =
     (case parseDockerConfig e r of
        Inl err \<Rightarrow> Inl err
      | Inr confs \<Rightarrow> authConfigs confs)"

subsection \<open>The resolver\<close>

text \<open>
  The loop over \<^verbatim>\<open>auths.Configs\<close> (lines 205 to 212): every entry whose normalized key
  is the server address overwrites the user name and the password, and sets
  \<^verbatim>\<open>foundRegistry\<close>; the loop has no \<^verbatim>\<open>break\<close>.
\<close>

fun findRegistry ::
  "(string \<times> AuthConfig) list \<Rightarrow> AuthConfig \<Rightarrow> bool \<Rightarrow> AuthConfig \<times> bool" where
  "findRegistry [] authConfig foundRegistry = (authConfig, foundRegistry)"
| "findRegistry ((registry, authFileConfig) # rest) authConfig foundRegistry =
     (if ServerAddress authConfig = normalizeRegistryAddress registry
      then findRegistry rest
             (authConfig\<lparr>Username := Username authFileConfig,
                         Password := Password authFileConfig\<rparr>) True
      else findRegistry rest authConfig foundRegistry)"

text \<open>The message of the last \<^verbatim>\<open>fmt.Errorf\<close>.\<close>

definition notFoundMessage :: "string \<Rightarrow> string \<Rightarrow> string" where
  "notFoundMessage serverAddress filePath =
     ''Couldn't find registry config for '' @ [CHR 0x27] @ serverAddress @ [CHR 0x27]
       @ '' in file: '' @ filePath"

text \<open>Lines 187 to 193: a leading \<^verbatim>\<open>~/\<close> is replaced by the home directory.\<close>

definition expandHome :: "env \<Rightarrow> string \<Rightarrow> error + string" where
  "expandHome e filePath =
     (if HasPrefix filePath ''~/'' then
        (case userCurrent e of
           Inl err \<Rightarrow> Inl (UserCurrentError err)
         | Inr homeDir \<Rightarrow> Inr (Replace1 filePath (CHR ''~'') homeDir))
      else Inr filePath)"

text \<open>The branch of the configuration file, lines 186 to 217.\<close>

definition fromConfigFile :: "env \<Rightarrow> AuthConfig \<Rightarrow> string \<Rightarrow> error + AuthConfig" where
  "fromConfigFile e authConfig configFile =
     (case expandHome e configFile of
        Inl err \<Rightarrow> Inl err
      | Inr filePath \<Rightarrow>
          (case osOpen e filePath of
             Inl err \<Rightarrow> Inl (OpenError err)
           | Inr r \<Rightarrow>
               (case newAuthConfigurations e r of
                  Inl err \<Rightarrow> Inl (ParseError err)
                | Inr auths \<Rightarrow>
                    (case findRegistry (rangeConfigs e auths) authConfig False of
                       (authConfig', foundRegistry) \<Rightarrow>
                         if \<not> foundRegistry
                         then Inl (RegistryNotFound
                                     (notFoundMessage (ServerAddress authConfig) filePath))
                         else Inr authConfig'))))"

text \<open>\<^verbatim>\<open>v, ok := auth[key]; ok && v.(string) != ""\<close>.\<close>

definition populated :: "string option \<Rightarrow> bool" where
  "populated v = (case v of None \<Rightarrow> False | Some s \<Rightarrow> s \<noteq> [])"

text \<open>The body of the loop over the blocks, up to the store into the map.\<close>

definition blockToAuthConfig :: "env \<Rightarrow> registry_auth \<Rightarrow> error + AuthConfig" where
  "blockToAuthConfig e auth =
     (let authConfig = zeroAuthConfig\<lparr>ServerAddress := normalizeRegistryAddress (address auth)\<rparr>
      in if populated (username auth)
         then Inr (authConfig\<lparr>Username := the (username auth), Password := password auth\<rparr>)
         else if populated (config_file auth)
         then fromConfigFile e authConfig (the (config_file auth))
         else Inr authConfig)"

fun registryAuthLoop ::
  "env \<Rightarrow> registry_auth list \<Rightarrow> (string \<times> AuthConfig) list
     \<Rightarrow> error + (string \<times> AuthConfig) list" where
  "registryAuthLoop e [] configs = Inr configs"
| "registryAuthLoop e (auth # rest) configs =
     (case blockToAuthConfig e auth of
        Inl err \<Rightarrow> Inl err
      | Inr authConfig \<Rightarrow>
          registryAuthLoop e rest (AList.update (ServerAddress authConfig) authConfig configs))"

definition providerSetToRegistryAuth ::
  "env \<Rightarrow> registry_auth list \<Rightarrow> error + (string \<times> AuthConfig) list" where
  "providerSetToRegistryAuth e authSet = registryAuthLoop e authSet []"

subsection \<open>An example environment\<close>

text \<open>
  Four credentials files and what the JSON library makes of each of them. A file of the
  wrapped shape unmarshals into the flat map with the one key \<^verbatim>\<open>auths\<close>, whose value has
  neither \<^verbatim>\<open>auth\<close> nor \<^verbatim>\<open>email\<close>; a file of the flat shape unmarshals into the wrapper
  with \<^verbatim>\<open>Auths\<close> left \<^verbatim>\<open>nil\<close>.
\<close>

definition wrappedFile :: string where
  \<open>wrappedFile = ''{"auths": {"reg.example.com": {"auth": "dXNlcjpwYXNz", "email": "me@example.com"}, "other.example.com/": {"auth": ""}}}''\<close>

definition flatFile :: string where
  \<open>flatFile = ''{"reg": {"auth": "dTE6cDE="}, "reg/": {"auth": "dTI6cDI="}}''\<close>

definition badEntryFile :: string where
  \<open>badEntryFile = ''{"auths": {"reg.example.com": {"auth": "dXNlcjpwYXNz"}, "bad.example.com": {"auth": "bm9jb2xvbg=="}}}''\<close>

definition brokenFile :: string where
  \<open>brokenFile = ''{"auths": ''\<close>

definition wrappedConfs :: "(string \<times> dockerConfig) list" where
  "wrappedConfs =
     [(''reg.example.com'', \<lparr>confAuth = ''dXNlcjpwYXNz'', confEmail = ''me@example.com''\<rparr>),
      (''other.example.com/'', \<lparr>confAuth = [], confEmail = []\<rparr>)]"

definition flatConfs :: "(string \<times> dockerConfig) list" where
  "flatConfs =
     [(''reg'', \<lparr>confAuth = ''dTE6cDE='', confEmail = []\<rparr>),
      (''reg/'', \<lparr>confAuth = ''dTI6cDI='', confEmail = []\<rparr>)]"

definition badEntryConfs :: "(string \<times> dockerConfig) list" where
  "badEntryConfs =
     [(''reg.example.com'', \<lparr>confAuth = ''dXNlcjpwYXNz'', confEmail = []\<rparr>),
      (''bad.example.com'', \<lparr>confAuth = ''bm9jb2xvbg=='', confEmail = []\<rparr>)]"

definition exampleEnv :: env where
  "exampleEnv =
     \<lparr>userCurrent = Inr ''/home/user'',
      osOpen = (\<lambda>name.
        if name = ''/home/user/.docker/config.json'' then Inr wrappedFile
        else if name = ''/etc/docker/flat.json'' then Inr flatFile
        else if name = ''/etc/docker/bad.json'' then Inr badEntryFile
        else if name = ''/etc/docker/broken.json'' then Inr brokenFile
        else Inl (''open '' @ name @ '': no such file or directory'')),
      unmarshalWrapper = (\<lambda>data.
        if data = wrappedFile then Inr wrappedConfs
        else if data = flatFile then Inr []
        else if data = badEntryFile then Inr badEntryConfs
        else Inl ''unexpected end of JSON input''),
      unmarshalConfs = (\<lambda>data.
        if data = wrappedFile then Inr [(''auths'', \<lparr>confAuth = [], confEmail = []\<rparr>)]
        else if data = flatFile then Inr flatConfs
        else if data = badEntryFile then Inr [(''auths'', \<lparr>confAuth = [], confEmail = []\<rparr>)]
        else Inl ''unexpected end of JSON input''),
      rangeConfigs = (\<lambda>configs. configs)\<rparr>"

text \<open>
  Blocks resolved in that environment: one with a user name, an empty password and a
  configuration file as well; one that reads the file in the home directory; one with
  neither; one whose address matches two entries of its file; one whose file has a
  malformed entry; one whose file does not exist; one whose address is not in its file.
\<close>

definition inlineBlock :: registry_auth where
  "inlineBlock =
     \<lparr>address = ''reg.example.com/'', username = Some ''u'', password = [],
      config_file = Some ''~/.docker/config.json''\<rparr>"

definition homeFileBlock :: registry_auth where
  "homeFileBlock =
     \<lparr>address = ''reg.example.com/'', username = Some [], password = ''unused'',
      config_file = Some ''~/.docker/config.json''\<rparr>"

definition bareBlock :: registry_auth where
  "bareBlock =
     \<lparr>address = ''reg.example.com'', username = None, password = [], config_file = None\<rparr>"

definition flatFileBlock :: registry_auth where
  "flatFileBlock =
     \<lparr>address = ''reg'', username = None, password = [],
      config_file = Some ''/etc/docker/flat.json''\<rparr>"

definition badFileBlock :: registry_auth where
  "badFileBlock =
     \<lparr>address = ''reg.example.com'', username = None, password = [],
      config_file = Some ''/etc/docker/bad.json''\<rparr>"

definition missingFileBlock :: registry_auth where
  "missingFileBlock =
     \<lparr>address = ''x.example.com'', username = None, password = [],
      config_file = Some ''/nowhere.json''\<rparr>"

definition unknownRegistryBlock :: registry_auth where
  "unknownRegistryBlock =
     \<lparr>address = ''nope.example.com'', username = None, password = [],
      config_file = Some ''~/.docker/config.json''\<rparr>"

section \<open>Properties\<close>

subsection \<open>Address normalization\<close>




subsection \<open>Base64: decoding an encoding gives the bytes back\<close>

lemma distinct_encodeStd: "distinct encodeStd"
  by code_simp

lemma length_encodeStd: "length encodeStd = 64"
  by code_simp

lemma indexOf_nth: "distinct xs \<Longrightarrow> n < length xs \<Longrightarrow> indexOf (xs ! n) xs = Some n"
proof (induction xs arbitrary: n)
  case Nil then show ?case by simp
next
  case (Cons x xs)
  show ?case
  proof (cases n)
    case 0 then show ?thesis by simp
  next
    case (Suc m)
    with Cons.prems have "m < length xs" "distinct xs" "xs ! m \<noteq> x" by auto
    with Cons.IH[of m] Suc show ?thesis by simp
  qed
qed

lemma decodeMap_enc6: "decodeMap (enc6 n) = Some (n mod 64)"
  unfolding decodeMap_def enc6_def
  by (rule indexOf_nth) (simp_all add: distinct_encodeStd length_encodeStd)

lemma decodeMap_padChar: "decodeMap padChar = None"
  by code_simp

lemma decodeMap_LF: "decodeMap (CHR 0x0A) = None"
  by code_simp

lemma decodeMap_CR: "decodeMap (CHR 0x0D) = None"
  by code_simp

lemma enc6_neq: "enc6 n \<noteq> padChar" "enc6 n \<noteq> CHR 0x0A" "enc6 n \<noteq> CHR 0x0D"
  using decodeMap_enc6[of n] decodeMap_padChar decodeMap_LF decodeMap_CR by auto

lemma padChar_neq: "padChar \<noteq> CHR 0x0A" "padChar \<noteq> CHR 0x0D"
  by (simp_all add: padChar_def)

lemma quantum3:
  "quantumVal (x div 4) (x mod 4 * 16 + y div 16) (y mod 16 * 4 + z div 64) (z mod 64)
     = x * 65536 + y * 256 + z"
proof -
  define x1 x2 y1 y2 z1 z2 where
    "x1 = x div 4" and "x2 = x mod 4" and "y1 = y div 16" and "y2 = y mod 16"
    and "z1 = z div 64" and "z2 = z mod 64"
  have "x = x1 * 4 + x2" "y = y1 * 16 + y2" "z = z1 * 64 + z2"
    by (simp_all add: x1_def x2_def y1_def y2_def z1_def z2_def)
  then have "quantumVal x1 (x2 * 16 + y1) (y2 * 4 + z1) z2 = x * 65536 + y * 256 + z"
    by (simp add: quantumVal_def)
  then show ?thesis
    by (simp only: x1_def x2_def y1_def y2_def z1_def z2_def)
qed

lemma quantum2:
  "quantumVal (x div 4) (x mod 4 * 16 + y div 16) (y mod 16 * 4) 0 = x * 65536 + y * 256"
  using quantum3[of x y 0] by (simp add: quantumVal_def)

lemma quantum1:
  "quantumVal (x div 4) (x mod 4 * 16) 0 0 = x * 65536"
  using quantum3[of x 0 0] by (simp add: quantumVal_def)

lemma byteAt16: "y < 256 \<Longrightarrow> z < 256 \<Longrightarrow> byteAt (of_char a * 65536 + y * 256 + z) 16 = a"
proof -
  assume "y < 256" "z < 256"
  then have "(of_char a * 65536 + y * 256 + z) div 65536 = (of_char a :: nat)" by simp
  then show ?thesis by (simp add: byteAt_def)
qed

lemma byteAt8: "z < 256 \<Longrightarrow> byteAt (x * 65536 + of_char b * 256 + z) 8 = b"
proof -
  assume "z < 256"
  then have "(x * 65536 + of_char b * 256 + z) div 256 = x * 256 + (of_char b :: nat)" by simp
  moreover have "char_of (x * 256 + (of_char b :: nat)) = char_of ((x * 256 + of_char b) mod 256)"
    by (simp only: char_of_mod_256)
  ultimately show ?thesis by (simp add: byteAt_def)
qed

lemma byteAt0: "byteAt (x * 65536 + y * 256 + of_char c) 0 = c"
proof -
  have "char_of (x * 65536 + y * 256 + (of_char c :: nat))
          = char_of ((x * 65536 + y * 256 + of_char c) mod 256)"
    by (simp only: char_of_mod_256)
  also have "(x * 65536 + y * 256 + (of_char c :: nat)) mod 256 = of_char c"
    by (simp add: mod_add_left_eq[symmetric] )
  finally show ?thesis by (simp add: byteAt_def)
qed


lemma sextet_bounds:
  fixes x y z :: nat
  assumes "x < 256" "y < 256" "z < 256"
  shows "x div 4 < 64" "x mod 4 * 16 + y div 16 < 64" "y mod 16 * 4 + z div 64 < 64"
        "x mod 4 * 16 < 64" "y mod 16 * 4 < 64"
proof -
  have "x mod 4 < 4" "y mod 16 < 16" "y div 16 < 16" "z div 64 < 4" "x div 4 < 64"
    using assms by (simp_all add: less_mult_imp_div_less)
  then show "x div 4 < 64" "x mod 4 * 16 + y div 16 < 64" "y mod 16 * 4 + z div 64 < 64"
        "x mod 4 * 16 < 64" "y mod 16 * 4 < 64"
    by linarith+
qed

lemma decodeQuanta_quantum:
  "decodeQuanta (enc6 d0 # enc6 d1 # enc6 d2 # enc6 d3 # rest) =
     (case decodeQuanta rest of
        Inl e \<Rightarrow> Inl e
      | Inr bs \<Rightarrow>
          Inr (byteAt (quantumVal (d0 mod 64) (d1 mod 64) (d2 mod 64) (d3 mod 64)) 16 #
               byteAt (quantumVal (d0 mod 64) (d1 mod 64) (d2 mod 64) (d3 mod 64)) 8 #
               byteAt (quantumVal (d0 mod 64) (d1 mod 64) (d2 mod 64) (d3 mod 64)) 0 # bs))"
  by (simp add: decodeMap_enc6 enc6_neq)

lemma decodeQuanta_pad1:
  "decodeQuanta [enc6 d0, enc6 d1, enc6 d2, padChar] =
     Inr [byteAt (quantumVal (d0 mod 64) (d1 mod 64) (d2 mod 64) 0) 16,
          byteAt (quantumVal (d0 mod 64) (d1 mod 64) (d2 mod 64) 0) 8]"
  by (simp add: decodeMap_enc6 enc6_neq)

lemma decodeQuanta_pad2:
  "decodeQuanta [enc6 d0, enc6 d1, padChar, padChar] =
     Inr [byteAt (quantumVal (d0 mod 64) (d1 mod 64) 0 0) 16]"
  by (simp add: decodeMap_enc6 enc6_neq)

lemma decodeQuanta_EncodeToString: "decodeQuanta (EncodeToString bs) = Inr bs"
proof (induction bs rule: EncodeToString.induct)
  case 1
  show ?case by simp
next
  case (2 a)
  have "byteAt (of_char a * 65536 + 0 * 256 + 0) 16 = a"
    by (rule byteAt16) simp_all
  then show ?case
    using sextet_bounds[of "of_char a" 0 0]
    by (simp add: Let_def decodeQuanta_pad2 quantum1 del: decodeQuanta.simps)
next
  case (3 a b)
  have "byteAt (of_char a * 65536 + of_char b * 256 + 0) 16 = a"
       "byteAt (of_char a * 65536 + of_char b * 256 + 0) 8 = b"
    by (rule byteAt16, simp_all, rule byteAt8[where z=0, simplified])
  then show ?case
    using sextet_bounds[of "of_char a" "of_char b" 0]
    by (simp add: Let_def decodeQuanta_pad1 quantum2 del: decodeQuanta.simps)
next
  case (4 a b c rest)
  have "byteAt (of_char a * 65536 + of_char b * 256 + of_char c) 16 = a"
       "byteAt (of_char a * 65536 + of_char b * 256 + of_char c) 8 = b"
       "byteAt (of_char a * 65536 + of_char b * 256 + of_char c) 0 = c"
    by (simp_all add: byteAt16 byteAt8 byteAt0)
  then show ?case
    using sextet_bounds[of "of_char a" "of_char b" "of_char c"] "4.IH"
    by (simp add: Let_def decodeQuanta_quantum quantum3 del: decodeQuanta.simps)
qed

lemma EncodeToString_no_newline:
  "filter (\<lambda>c. c \<noteq> CHR 0x0A \<and> c \<noteq> CHR 0x0D) (EncodeToString bs) = EncodeToString bs"
  by (induction bs rule: EncodeToString.induct) (simp_all add: Let_def enc6_neq padChar_neq)

lemma DecodeString_EncodeToString: "DecodeString (EncodeToString bs) = Inr bs"
  by (simp add: DecodeString_def EncodeToString_no_newline decodeQuanta_EncodeToString)

lemma SplitN2_colon:
  "CHR '':'' \<notin> set u \<Longrightarrow> SplitN2 (u @ CHR '':'' # p) = [u, p]"
  by (induction u) (auto simp: SplitN2_def)

lemma char_of_eq: "char_of (n::nat) = c \<longleftrightarrow> n mod 256 = of_char c"
  by (auto simp: char_of_eq_iff take_bit_eq_mod)

lemmas base64_eval =
  DecodeString_def decodeMap_def encodeStd_def quantumVal_def byteAt_def padChar_def
  enc6_def char_of_eq

lemma decodeQuanta_error: "decodeQuanta s = Inl err \<Longrightarrow> err = CorruptInputError"
  proof (induction s arbitrary: err rule: decodeQuanta.induct)
  case (2 a b c d rest)
  then show ?case
    by (simp split: option.splits if_splits sum.splits)
qed simp_all

lemma DecodeString_error: "DecodeString s = Inl err \<Longrightarrow> err = CorruptInputError"
  unfolding DecodeString_def by (rule decodeQuanta_error)

subsection \<open>Decoding a packed auth string\<close>

text \<open>
  C4: the packed string is decoded as padded standard base64 and the bytes are cut at
  the first colon. For a user name \<open>u\<close> without a colon and any password \<open>p\<close>, the
  encoding of \<open>u:p\<close> decodes to \<open>u\<close> and \<open>p\<close>. Bytes without a colon give
  \<open>ErrCannotParseDockercfg\<close>; a string that is not base64 gives the decoder's own error,
  which is another value.
\<close>

theorem decodeUserpass_first_colon:
  "(CHR '':'' \<notin> set u \<longrightarrow>
      decodeUserpass (EncodeToString (u @ '':'' @ p)) = Inr [u, p]) \<and>
   (DecodeString s = Inr d \<and> CHR '':'' \<notin> set d \<longrightarrow>
      decodeUserpass s = Inl ErrCannotParseDockercfg) \<and>
   (DecodeString t = Inl err \<longrightarrow>
      decodeUserpass t = Inl err \<and> err = CorruptInputError \<and> err \<noteq> ErrCannotParseDockercfg)"
proof (intro conjI impI)
  assume "CHR '':'' \<notin> set u"
  then show "decodeUserpass (EncodeToString (u @ '':'' @ p)) = Inr [u, p]"
    by (simp add: decodeUserpass_def DecodeString_EncodeToString SplitN2_colon)
next
  assume "DecodeString s = Inr d \<and> CHR '':'' \<notin> set d"
  then show "decodeUserpass s = Inl ErrCannotParseDockercfg"
    by (simp add: decodeUserpass_def SplitN2_def)
next
  assume a: "DecodeString t = Inl err"
  then show "decodeUserpass t = Inl err" by (simp add: decodeUserpass_def)
  from a show "err = CorruptInputError" by (rule DecodeString_error)
  then show "err \<noteq> ErrCannotParseDockercfg" by simp
qed

theorem decodeUserpass_first_colon_witness:
  "CHR '':'' \<notin> set ''user'' \<and>
   decodeUserpass ''dXNlcjpwYTpzcw=='' = Inr [''user'', ''pa:ss''] \<and>
   DecodeString ''bm9jb2xvbg=='' = Inr ''nocolon'' \<and> CHR '':'' \<notin> set ''nocolon'' \<and>
   decodeUserpass ''bm9jb2xvbg=='' = Inl ErrCannotParseDockercfg \<and>
   DecodeString ''not-valid-base64!!'' = Inl CorruptInputError \<and>
   decodeUserpass ''not-valid-base64!!'' = Inl CorruptInputError"
proof -
  note inst = decodeUserpass_first_colon [of "''user''" "''pa:ss''" "''bm9jb2xvbg==''"
      "''nocolon''" "''not-valid-base64!!''" CorruptInputError]
  have h1: "CHR '':'' \<notin> set ''user''" by simp
  have enc: "EncodeToString (''user'' @ '':'' @ ''pa:ss'') = ''dXNlcjpwYTpzcw==''"
    by (simp add: enc6_def encodeStd_def padChar_def)
  have h2: "DecodeString ''bm9jb2xvbg=='' = Inr ''nocolon''"
    by (simp add: base64_eval)
  have h3: "CHR '':'' \<notin> set ''nocolon''" by simp
  have h4: "DecodeString ''not-valid-base64!!'' = Inl CorruptInputError"
    by (simp add: base64_eval)
  have c1: "decodeUserpass ''dXNlcjpwYTpzcw=='' = Inr [''user'', ''pa:ss'']"
    using inst [THEN conjunct1, rule_format, OF h1] by (simp only: enc)
  have c2: "decodeUserpass ''bm9jb2xvbg=='' = Inl ErrCannotParseDockercfg"
    using inst [THEN conjunct2, THEN conjunct1, rule_format, OF conjI [OF h2 h3]] .
  have c3: "decodeUserpass ''not-valid-base64!!'' = Inl CorruptInputError"
    using inst [THEN conjunct2, THEN conjunct2, rule_format, OF h4] by simp
  show ?thesis
    by (intro conjI) (rule h1 c1 h2 h3 c2 h4 c3)+
qed

subsection \<open>The loops of the parser and of the resolver\<close>

lemma authConfigsLoop_filter:
  "authConfigsLoop (filter (\<lambda>(reg, conf). confAuth conf \<noteq> []) confs) c = authConfigsLoop confs c"
  by (induction confs c rule: authConfigsLoop.induct) (simp_all split: sum.splits)

lemma authConfigsLoop_lookup:
  "authConfigsLoop confs c = Inr m \<Longrightarrow> distinct (map fst confs) \<Longrightarrow>
   map_of m k =
     (case map_of confs k of
        None \<Rightarrow> map_of c k
      | Some conf \<Rightarrow>
          if confAuth conf = [] then map_of c k
          else (case decodeUserpass (confAuth conf) of
                  Inl err \<Rightarrow> None
                | Inr userpass \<Rightarrow>
                    Some \<lparr>Username = userpass ! 0, Password = userpass ! 1,
                          Auth = confAuth conf, Email = confEmail conf, ServerAddress = k,
                          IdentityToken = [], RegistryToken = []\<rparr>))"
proof (induction confs c rule: authConfigsLoop.induct)
  case (1 c)
  then show ?case by simp
next
  case (2 reg conf rest c)
  show ?case
  proof (cases "confAuth conf = []")
    case True
    from "2.prems" True have run: "authConfigsLoop rest c = Inr m" by simp
    from "2.prems" have d: "distinct (map fst rest)" and nin: "reg \<notin> fst ` set rest" by auto
    note ih = "2.IH"(1)[OF True run d]
    show ?thesis
    proof (cases "k = reg")
      case keq: True
      with nin have "map_of rest k = None" by (simp add: map_of_eq_None_iff)
      with ih keq True show ?thesis by simp
    next
      case False
      with ih show ?thesis by simp
    qed
  next
    case False
    with "2.prems" obtain userpass where up: "decodeUserpass (confAuth conf) = Inr userpass"
      by (auto split: sum.splits)
    let ?c = "AList.update reg
               \<lparr>Username = userpass ! 0, Password = userpass ! 1, Auth = confAuth conf,
                Email = confEmail conf, ServerAddress = reg,
                IdentityToken = [], RegistryToken = []\<rparr> c"
    from "2.prems" False up have run: "authConfigsLoop rest ?c = Inr m" by simp
    from "2.prems" have d: "distinct (map fst rest)" and nin: "reg \<notin> fst ` set rest" by auto
    note ih = "2.IH"(2)[OF False up run d]
    show ?thesis
    proof (cases "k = reg")
      case True
      with nin have "map_of rest k = None" by (simp add: map_of_eq_None_iff)
      with ih True False up show ?thesis by (simp add: update_conv')
    next
      case neq: False
      with ih False show ?thesis by (simp add: update_conv' split: option.splits)
    qed
  qed
qed

lemma authConfigsLoop_error:
  "(reg, conf) \<in> set confs \<Longrightarrow> confAuth conf \<noteq> [] \<Longrightarrow>
   decodeUserpass (confAuth conf) = Inl err0 \<Longrightarrow>
   \<exists>reg' conf' err. (reg', conf') \<in> set confs \<and> confAuth conf' \<noteq> [] \<and>
      decodeUserpass (confAuth conf') = Inl err \<and> authConfigsLoop confs c = Inl err"
proof (induction confs c rule: authConfigsLoop.induct)
  case (1 c)
  then show ?case by simp
next
  case (2 r cf rest c)
  show ?case
  proof (cases "confAuth cf = []")
    case True
    with "2.prems" have "(reg, conf) \<in> set rest" by auto
    from "2.IH"(1)[OF True this "2.prems"(2,3)] True show ?thesis by auto
  next
    case False
    show ?thesis
    proof (cases "decodeUserpass (confAuth cf)")
      case (Inl err)
      with False show ?thesis by auto
    next
      case (Inr userpass)
      with "2.prems" have "(reg, conf) \<in> set rest" by auto
      from "2.IH"(2)[OF False Inr this "2.prems"(2,3)] False Inr show ?thesis by auto
    qed
  qed
qed

lemma findRegistry_filter:
  "findRegistry es ac f =
     (let ms = filter (\<lambda>(registry, _). ServerAddress ac = normalizeRegistryAddress registry) es
      in if ms = [] then (ac, f)
         else (ac\<lparr>Username := Username (snd (last ms)),
                  Password := Password (snd (last ms))\<rparr>, True))"
  by (induction es ac f rule: findRegistry.induct) (auto simp: Let_def)

lemma fromConfigFile_scan:
  assumes "expandHome e configFile = Inr filePath" and "osOpen e filePath = Inr r"
    and "newAuthConfigurations e r = Inr auths"
  shows "fromConfigFile e ac configFile =
     (let ms = filter (\<lambda>(registry, _). ServerAddress ac = normalizeRegistryAddress registry)
                 (rangeConfigs e auths)
      in if ms = [] then Inl (RegistryNotFound (notFoundMessage (ServerAddress ac) filePath))
         else Inr (ac\<lparr>Username := Username (snd (last ms)),
                      Password := Password (snd (last ms))\<rparr>))"
  using assms by (simp add: fromConfigFile_def findRegistry_filter Let_def)

lemma fromConfigFile_Inr:
  assumes "fromConfigFile e ac configFile = Inr ac'"
  shows "\<exists>filePath r auths.
           expandHome e configFile = Inr filePath \<and> osOpen e filePath = Inr r \<and>
           newAuthConfigurations e r = Inr auths \<and>
           filter (\<lambda>(registry, _). ServerAddress ac = normalizeRegistryAddress registry)
             (rangeConfigs e auths) \<noteq> [] \<and>
           ac' = ac\<lparr>Username := Username (snd (last (filter
                        (\<lambda>(registry, _). ServerAddress ac = normalizeRegistryAddress registry)
                        (rangeConfigs e auths)))),
                     Password := Password (snd (last (filter
                        (\<lambda>(registry, _). ServerAddress ac = normalizeRegistryAddress registry)
                        (rangeConfigs e auths))))\<rparr>"
proof -
  from assms obtain filePath where 1: "expandHome e configFile = Inr filePath"
    by (auto simp: fromConfigFile_def split: sum.splits)
  with assms obtain r where 2: "osOpen e filePath = Inr r"
    by (auto simp: fromConfigFile_def split: sum.splits)
  with 1 assms obtain auths where 3: "newAuthConfigurations e r = Inr auths"
    by (auto simp: fromConfigFile_def split: sum.splits)
  from assms fromConfigFile_scan[OF 1 2 3, of ac] 1 2 3 show ?thesis
    by (auto simp: Let_def split: if_splits)
qed

lemma blockToAuthConfig_ServerAddress:
  assumes "blockToAuthConfig e auth = Inr ac"
  shows "ServerAddress ac = normalizeRegistryAddress (address auth)"
proof (cases "populated (username auth)")
  case True
  with assms show ?thesis by (auto simp: blockToAuthConfig_def Let_def)
next
  case False
  show ?thesis
  proof (cases "populated (config_file auth)")
    case True
    with False assms have "fromConfigFile e
        (zeroAuthConfig\<lparr>ServerAddress := normalizeRegistryAddress (address auth)\<rparr>)
        (the (config_file auth)) = Inr ac"
      by (simp add: blockToAuthConfig_def Let_def)
    from fromConfigFile_Inr[OF this] show ?thesis by auto
  next
    case no: False
    with False assms show ?thesis by (auto simp: blockToAuthConfig_def Let_def)
  qed
qed

lemma registryAuthLoop_append:
  "registryAuthLoop e (xs @ ys) c =
     (case registryAuthLoop e xs c of Inl err \<Rightarrow> Inl err | Inr c' \<Rightarrow> registryAuthLoop e ys c')"
  by (induction xs arbitrary: c) (simp_all split: sum.splits)

lemma registryAuthLoop_all_ok:
  "\<forall>a \<in> set xs. \<exists>ac. blockToAuthConfig e a = Inr ac \<Longrightarrow> \<exists>c'. registryAuthLoop e xs c = Inr c'"
  by (induction xs arbitrary: c) auto

lemma registryAuthLoop_keys:
  "registryAuthLoop e xs c = Inr c' \<Longrightarrow>
   fst ` set c' = fst ` set c \<union> (\<lambda>a. normalizeRegistryAddress (address a)) ` set xs"
proof (induction xs arbitrary: c)
  case Nil
  then show ?case by simp
next
  case (Cons a xs)
  from Cons.prems obtain ac where ac: "blockToAuthConfig e a = Inr ac"
    and run: "registryAuthLoop e xs (AList.update (ServerAddress ac) ac c) = Inr c'"
    by (auto split: sum.splits)
  from Cons.IH[OF run] blockToAuthConfig_ServerAddress[OF ac] show ?case
    by (auto simp: dom_update)
qed

lemma registryAuthLoop_distinct:
  "registryAuthLoop e xs c = Inr c' \<Longrightarrow> distinct (map fst c) \<Longrightarrow> distinct (map fst c')"
  by (induction xs arbitrary: c) (auto split: sum.splits simp: distinct_update)

lemma registryAuthLoop_other:
  "registryAuthLoop e xs c = Inr c' \<Longrightarrow>
   \<forall>a \<in> set xs. normalizeRegistryAddress (address a) \<noteq> k \<Longrightarrow> map_of c' k = map_of c k"
proof (induction xs arbitrary: c)
  case Nil
  then show ?case by simp
next
  case (Cons a xs)
  from Cons.prems obtain ac where ac: "blockToAuthConfig e a = Inr ac"
    and run: "registryAuthLoop e xs (AList.update (ServerAddress ac) ac c) = Inr c'"
    by (auto split: sum.splits)
  from Cons.prems have "ServerAddress ac \<noteq> k"
    using blockToAuthConfig_ServerAddress[OF ac] by simp
  moreover from Cons.prems have "\<forall>a \<in> set xs. normalizeRegistryAddress (address a) \<noteq> k"
    by simp
  ultimately show ?case using Cons.IH[OF run] by (simp add: update_conv')
qed

lemma registryAuthLoop_first_error:
  "registryAuthLoop e xs c = Inl err \<Longrightarrow>
   \<exists>pre a post. xs = pre @ a # post \<and> (\<forall>b \<in> set pre. \<exists>ac. blockToAuthConfig e b = Inr ac) \<and>
      blockToAuthConfig e a = Inl err"
proof (induction xs arbitrary: c)
  case Nil
  then show ?case by simp
next
  case (Cons a xs)
  show ?case
  proof (cases "blockToAuthConfig e a")
    case (Inl err')
    with Cons.prems have "err' = err" by simp
    with Inl have "a # xs = [] @ a # xs \<and> (\<forall>b \<in> set []. \<exists>ac. blockToAuthConfig e b = Inr ac) \<and>
        blockToAuthConfig e a = Inl err" by simp
    then show ?thesis by blast
  next
    case (Inr ac)
    with Cons.prems have "registryAuthLoop e xs (AList.update (ServerAddress ac) ac c) = Inl err"
      by simp
    from Cons.IH[OF this] obtain pre b post where
      "xs = pre @ b # post" "\<forall>b \<in> set pre. \<exists>ac. blockToAuthConfig e b = Inr ac"
      "blockToAuthConfig e b = Inl err" by blast
    with Inr have "a # xs = (a # pre) @ b # post \<and>
        (\<forall>b \<in> set (a # pre). \<exists>ac. blockToAuthConfig e b = Inr ac) \<and>
        blockToAuthConfig e b = Inl err" by simp
    then show ?thesis by blast
  qed
qed

subsection \<open>The example environment, evaluated\<close>

lemmas resolver_eval =
  blockToAuthConfig_def populated_def fromConfigFile_def expandHome_def HasPrefix_def
  newAuthConfigurations_def parseDockerConfig_def authConfigs_def decodeUserpass_def
  SplitN2_def normalizeRegistryAddress_def zeroAuthConfig_def notFoundMessage_def

lemmas example_eval =
  exampleEnv_def wrappedFile_def flatFile_def badEntryFile_def brokenFile_def
  wrappedConfs_def flatConfs_def badEntryConfs_def
  inlineBlock_def homeFileBlock_def bareBlock_def flatFileBlock_def badFileBlock_def
  missingFileBlock_def unknownRegistryBlock_def

lemma example_decodes:
  "DecodeString ''dXNlcjpwYXNz'' = Inr ''user:pass''"
  "DecodeString ''dTE6cDE='' = Inr ''u1:p1''"
  "DecodeString ''dTI6cDI='' = Inr ''u2:p2''"
  "DecodeString ''bm9jb2xvbg=='' = Inr ''nocolon''"
  by (simp_all add: base64_eval)

lemma example_parses:
  "newAuthConfigurations exampleEnv wrappedFile =
     Inr [(''reg.example.com'',
           \<lparr>Username = ''user'', Password = ''pass'', Auth = ''dXNlcjpwYXNz'',
            Email = ''me@example.com'', ServerAddress = ''reg.example.com'',
            IdentityToken = [], RegistryToken = []\<rparr>)]"
  "newAuthConfigurations exampleEnv flatFile =
     Inr [(''reg'',
           \<lparr>Username = ''u1'', Password = ''p1'', Auth = ''dTE6cDE='', Email = [],
            ServerAddress = ''reg'', IdentityToken = [], RegistryToken = []\<rparr>),
          (''reg/'',
           \<lparr>Username = ''u2'', Password = ''p2'', Auth = ''dTI6cDI='', Email = [],
            ServerAddress = ''reg/'', IdentityToken = [], RegistryToken = []\<rparr>)]"
  "newAuthConfigurations exampleEnv badEntryFile = Inl ErrCannotParseDockercfg"
  "newAuthConfigurations exampleEnv brokenFile =
     Inl (UnmarshalError ''unexpected end of JSON input'')"
  by (simp_all add: resolver_eval example_eval example_decodes)

lemma example_paths:
  "expandHome exampleEnv ''~/.docker/config.json'' = Inr ''/home/user/.docker/config.json''"
  "expandHome exampleEnv ''/etc/docker/flat.json'' = Inr ''/etc/docker/flat.json''"
  "expandHome exampleEnv ''/etc/docker/bad.json'' = Inr ''/etc/docker/bad.json''"
  "expandHome exampleEnv ''/nowhere.json'' = Inr ''/nowhere.json''"
  by (simp_all add: expandHome_def HasPrefix_def exampleEnv_def)

lemma example_files:
  "osOpen exampleEnv ''/home/user/.docker/config.json'' = Inr wrappedFile"
  "osOpen exampleEnv ''/etc/docker/flat.json'' = Inr flatFile"
  "osOpen exampleEnv ''/etc/docker/bad.json'' = Inr badEntryFile"
  "osOpen exampleEnv ''/nowhere.json'' = Inl ''open /nowhere.json: no such file or directory''"
  by (simp_all add: exampleEnv_def)

lemma example_range: "rangeConfigs exampleEnv configs = configs"
  by (simp add: exampleEnv_def)

lemma example_blocks:
  "blockToAuthConfig exampleEnv inlineBlock =
     Inr \<lparr>Username = ''u'', Password = [], Auth = [], Email = [],
          ServerAddress = ''reg.example.com'', IdentityToken = [], RegistryToken = []\<rparr>"
  "blockToAuthConfig exampleEnv homeFileBlock =
     Inr \<lparr>Username = ''user'', Password = ''pass'', Auth = [], Email = [],
          ServerAddress = ''reg.example.com'', IdentityToken = [], RegistryToken = []\<rparr>"
  "blockToAuthConfig exampleEnv bareBlock =
     Inr \<lparr>Username = [], Password = [], Auth = [], Email = [],
          ServerAddress = ''reg.example.com'', IdentityToken = [], RegistryToken = []\<rparr>"
  "blockToAuthConfig exampleEnv flatFileBlock =
     Inr \<lparr>Username = ''u2'', Password = ''p2'', Auth = [], Email = [],
          ServerAddress = ''reg'', IdentityToken = [], RegistryToken = []\<rparr>"
  "blockToAuthConfig exampleEnv badFileBlock = Inl (ParseError ErrCannotParseDockercfg)"
  "blockToAuthConfig exampleEnv missingFileBlock =
     Inl (OpenError ''open /nowhere.json: no such file or directory'')"
  "blockToAuthConfig exampleEnv unknownRegistryBlock =
     Inl (RegistryNotFound
       (''Couldn't find registry config for '' @ [CHR 0x27] @ ''nope.example.com''
          @ [CHR 0x27] @ '' in file: /home/user/.docker/config.json''))"
  unfolding blockToAuthConfig_def fromConfigFile_def
  by (simp_all add: populated_def inlineBlock_def homeFileBlock_def bareBlock_def
        flatFileBlock_def badFileBlock_def missingFileBlock_def unknownRegistryBlock_def
        example_paths example_files example_parses example_range
        normalizeRegistryAddress_def zeroAuthConfig_def notFoundMessage_def)

lemma example_all_ok:
  "\<forall>a \<in> set [inlineBlock]. \<exists>ac. blockToAuthConfig exampleEnv a = Inr ac"
  "\<forall>a \<in> set [inlineBlock, flatFileBlock]. \<exists>ac. blockToAuthConfig exampleEnv a = Inr ac"
  by (simp_all add: example_blocks)

lemma example_addresses:
  "normalizeRegistryAddress (address inlineBlock) = ''reg.example.com''"
  "normalizeRegistryAddress (address homeFileBlock) = ''reg.example.com''"
  "normalizeRegistryAddress (address bareBlock) = ''reg.example.com''"
  "normalizeRegistryAddress (address flatFileBlock) = ''reg''"
  by (simp_all add: inlineBlock_def homeFileBlock_def bareBlock_def flatFileBlock_def
        normalizeRegistryAddress_def)

lemma example_resolutions:
  "providerSetToRegistryAuth exampleEnv [inlineBlock, bareBlock, flatFileBlock] =
     Inr [(''reg.example.com'',
           \<lparr>Username = [], Password = [], Auth = [], Email = [],
            ServerAddress = ''reg.example.com'', IdentityToken = [], RegistryToken = []\<rparr>),
          (''reg'',
           \<lparr>Username = ''u2'', Password = ''p2'', Auth = [], Email = [],
            ServerAddress = ''reg'', IdentityToken = [], RegistryToken = []\<rparr>)]"
  "providerSetToRegistryAuth exampleEnv [inlineBlock, missingFileBlock, bareBlock] =
     Inl (OpenError ''open /nowhere.json: no such file or directory'')"
  by (simp_all add: providerSetToRegistryAuth_def example_blocks)

subsection \<open>The claims about the parser and the resolver\<close>

text \<open>
  C1, as stated: the first entry whose normalized key is the address of the block is
  selected. The file below has the keys \<^verbatim>\<open>reg\<close> and \<^verbatim>\<open>reg/\<close>, visited in
  this order; the first one matches the block, and the credentials resolved are not
  its credentials but those of the second.
\<close>

theorem first_match_counterexample:
  "newAuthConfigurations exampleEnv flatFile =
     Inr [(''reg'',
           \<lparr>Username = ''u1'', Password = ''p1'', Auth = ''dTE6cDE='', Email = [],
            ServerAddress = ''reg'', IdentityToken = [], RegistryToken = []\<rparr>),
          (''reg/'',
           \<lparr>Username = ''u2'', Password = ''p2'', Auth = ''dTI6cDI='', Email = [],
            ServerAddress = ''reg/'', IdentityToken = [], RegistryToken = []\<rparr>)] \<and>
   rangeConfigs exampleEnv
     [(''reg'',
       \<lparr>Username = ''u1'', Password = ''p1'', Auth = ''dTE6cDE='', Email = [],
        ServerAddress = ''reg'', IdentityToken = [], RegistryToken = []\<rparr>),
      (''reg/'',
       \<lparr>Username = ''u2'', Password = ''p2'', Auth = ''dTI6cDI='', Email = [],
        ServerAddress = ''reg/'', IdentityToken = [], RegistryToken = []\<rparr>)] =
     [(''reg'',
       \<lparr>Username = ''u1'', Password = ''p1'', Auth = ''dTE6cDE='', Email = [],
        ServerAddress = ''reg'', IdentityToken = [], RegistryToken = []\<rparr>),
      (''reg/'',
       \<lparr>Username = ''u2'', Password = ''p2'', Auth = ''dTI6cDI='', Email = [],
        ServerAddress = ''reg/'', IdentityToken = [], RegistryToken = []\<rparr>)] \<and>
   normalizeRegistryAddress ''reg'' = normalizeRegistryAddress (address flatFileBlock) \<and>
   blockToAuthConfig exampleEnv flatFileBlock \<noteq>
     Inr \<lparr>Username = ''u1'', Password = ''p1'', Auth = [], Email = [],
          ServerAddress = ''reg'', IdentityToken = [], RegistryToken = []\<rparr> \<and>
   blockToAuthConfig exampleEnv flatFileBlock =
     Inr \<lparr>Username = ''u2'', Password = ''p2'', Auth = [], Email = [],
          ServerAddress = ''reg'', IdentityToken = [], RegistryToken = []\<rparr>"
proof -
  have n: "normalizeRegistryAddress ''reg'' = normalizeRegistryAddress (address flatFileBlock)"
    by (simp add: flatFileBlock_def normalizeRegistryAddress_def)
  have neq: "blockToAuthConfig exampleEnv flatFileBlock \<noteq>
     Inr \<lparr>Username = ''u1'', Password = ''p1'', Auth = [], Email = [],
          ServerAddress = ''reg'', IdentityToken = [], RegistryToken = []\<rparr>"
    by (simp add: example_blocks)
  show ?thesis
    by (intro conjI) (rule example_parses(2) example_range n neq example_blocks(4))+
qed

text \<open>
  C1, amended: for a block without a user name and with a configuration file that
  opens and parses, the resolver scans every entry of the parsed file and normalizes
  its key; every entry whose normalized key is the normalized address of the block
  overwrites the user name and the password, so the credentials are those of the last
  such entry in the order visited. Without such an entry the resolution fails, and the
  message names the normalized address and the expanded path of the file.
\<close>

theorem config_file_lookup_last_match:
  assumes "\<not> populated (username auth)"
    and "config_file auth = Some configFile" and "configFile \<noteq> []"
    and "expandHome e configFile = Inr filePath" and "osOpen e filePath = Inr r"
    and "newAuthConfigurations e r = Inr auths"
  shows "blockToAuthConfig e auth =
     (let matches = filter (\<lambda>(registry, authFileConfig).
                       normalizeRegistryAddress registry = normalizeRegistryAddress (address auth))
                     (rangeConfigs e auths)
      in if matches = []
         then Inl (RegistryNotFound
                (''Couldn't find registry config for '' @ [CHR 0x27]
                   @ normalizeRegistryAddress (address auth) @ [CHR 0x27]
                   @ '' in file: '' @ filePath))
         else Inr \<lparr>Username = Username (snd (last matches)),
                   Password = Password (snd (last matches)),
                   Auth = [], Email = [],
                   ServerAddress = normalizeRegistryAddress (address auth),
                   IdentityToken = [], RegistryToken = []\<rparr>)"
proof -
  let ?ac0 = "zeroAuthConfig\<lparr>ServerAddress := normalizeRegistryAddress (address auth)\<rparr>"
  have eq: "(\<lambda>(registry, _::AuthConfig). ServerAddress ?ac0 = normalizeRegistryAddress registry)
          = (\<lambda>(registry, authFileConfig).
               normalizeRegistryAddress registry = normalizeRegistryAddress (address auth))"
    by (auto simp: fun_eq_iff)
  from assms(1,2,3) have "blockToAuthConfig e auth = fromConfigFile e ?ac0 configFile"
    by (simp add: blockToAuthConfig_def populated_def Let_def)
  also note fromConfigFile_scan[OF assms(4,5,6), of ?ac0]
  finally show ?thesis
    unfolding eq by (simp add: Let_def zeroAuthConfig_def notFoundMessage_def)
qed

theorem config_file_lookup_last_match_witness:
  "\<not> populated (username homeFileBlock) \<and>
   config_file homeFileBlock = Some ''~/.docker/config.json'' \<and>
   expandHome exampleEnv ''~/.docker/config.json'' = Inr ''/home/user/.docker/config.json'' \<and>
   osOpen exampleEnv ''/home/user/.docker/config.json'' = Inr wrappedFile \<and>
   blockToAuthConfig exampleEnv homeFileBlock =
     Inr \<lparr>Username = ''user'', Password = ''pass'', Auth = [], Email = [],
          ServerAddress = ''reg.example.com'', IdentityToken = [], RegistryToken = []\<rparr> \<and>
   \<not> populated (username unknownRegistryBlock) \<and>
   config_file unknownRegistryBlock = Some ''~/.docker/config.json'' \<and>
   blockToAuthConfig exampleEnv unknownRegistryBlock =
     Inl (RegistryNotFound
       (''Couldn't find registry config for '' @ [CHR 0x27] @ ''nope.example.com''
          @ [CHR 0x27] @ '' in file: /home/user/.docker/config.json''))"
proof -
  have u1: "\<not> populated (username homeFileBlock)"
    and u2: "\<not> populated (username unknownRegistryBlock)"
    by (simp_all add: populated_def homeFileBlock_def unknownRegistryBlock_def)
  have c1: "config_file homeFileBlock = Some ''~/.docker/config.json''"
    and c2: "config_file unknownRegistryBlock = Some ''~/.docker/config.json''"
    by (simp_all add: homeFileBlock_def unknownRegistryBlock_def)
  have ne: "''~/.docker/config.json'' \<noteq> []" by simp
  note p = example_paths(1) and f = example_files(1) and a = example_parses(1)
  have r1: "blockToAuthConfig exampleEnv homeFileBlock =
     Inr \<lparr>Username = ''user'', Password = ''pass'', Auth = [], Email = [],
          ServerAddress = ''reg.example.com'', IdentityToken = [], RegistryToken = []\<rparr>"
    unfolding config_file_lookup_last_match [OF u1 c1 ne p f a]
    by (simp add: example_range homeFileBlock_def normalizeRegistryAddress_def)
  have r2: "blockToAuthConfig exampleEnv unknownRegistryBlock =
     Inl (RegistryNotFound
       (''Couldn't find registry config for '' @ [CHR 0x27] @ ''nope.example.com''
          @ [CHR 0x27] @ '' in file: /home/user/.docker/config.json''))"
    unfolding config_file_lookup_last_match [OF u2 c2 ne p f a]
    by (simp add: example_range unknownRegistryBlock_def normalizeRegistryAddress_def)
  show ?thesis
    by (intro conjI) (rule u1 c1 p f r1 u2 c2 r2)+
qed

text \<open>
  C2: the mode of a block is decided in this order. A non-empty user name gives the
  record of the normalized address, the user name and the password, whatever the
  environment, the configuration file and the password are. Otherwise a non-empty
  configuration file is consulted (and a file that does not open is an error).
  Otherwise the record has the normalized address and nothing else, and is stored under
  that address.
\<close>

theorem resolution_mode_precedence:
  "(username auth = Some u \<and> u \<noteq> [] \<longrightarrow>
      blockToAuthConfig e auth =
        Inr \<lparr>Username = u, Password = password auth, Auth = [], Email = [],
             ServerAddress = normalizeRegistryAddress (address auth),
             IdentityToken = [], RegistryToken = []\<rparr> \<and>
      blockToAuthConfig e' auth = blockToAuthConfig e auth) \<and>
   (\<not> populated (username auth) \<and> config_file auth = Some configFile \<and> configFile \<noteq> [] \<longrightarrow>
      blockToAuthConfig e auth =
        fromConfigFile e
          (zeroAuthConfig\<lparr>ServerAddress := normalizeRegistryAddress (address auth)\<rparr>)
          configFile \<and>
      (\<forall>filePath msg. expandHome e configFile = Inr filePath \<and> osOpen e filePath = Inl msg
         \<longrightarrow> blockToAuthConfig e auth = Inl (OpenError msg))) \<and>
   (\<not> populated (username auth) \<and> \<not> populated (config_file auth) \<longrightarrow>
      blockToAuthConfig e auth =
        Inr \<lparr>Username = [], Password = [], Auth = [], Email = [],
             ServerAddress = normalizeRegistryAddress (address auth),
             IdentityToken = [], RegistryToken = []\<rparr> \<and>
      providerSetToRegistryAuth e [auth] =
        Inr [(normalizeRegistryAddress (address auth),
              \<lparr>Username = [], Password = [], Auth = [], Email = [],
               ServerAddress = normalizeRegistryAddress (address auth),
               IdentityToken = [], RegistryToken = []\<rparr>)])"
proof (intro conjI impI allI)
  assume a: "username auth = Some u \<and> u \<noteq> []"
  then show "blockToAuthConfig e auth =
        Inr \<lparr>Username = u, Password = password auth, Auth = [], Email = [],
             ServerAddress = normalizeRegistryAddress (address auth),
             IdentityToken = [], RegistryToken = []\<rparr>"
    by (simp add: blockToAuthConfig_def populated_def Let_def zeroAuthConfig_def)
  from a show "blockToAuthConfig e' auth = blockToAuthConfig e auth"
    by (simp add: blockToAuthConfig_def populated_def Let_def)
next
  assume a: "\<not> populated (username auth) \<and> config_file auth = Some configFile \<and> configFile \<noteq> []"
  then show eq: "blockToAuthConfig e auth =
        fromConfigFile e
          (zeroAuthConfig\<lparr>ServerAddress := normalizeRegistryAddress (address auth)\<rparr>)
          configFile"
    by (simp add: blockToAuthConfig_def populated_def Let_def)
  fix filePath msg
  assume "expandHome e configFile = Inr filePath \<and> osOpen e filePath = Inl msg"
  then show "blockToAuthConfig e auth = Inl (OpenError msg)"
    unfolding eq by (simp add: fromConfigFile_def)
next
  assume a: "\<not> populated (username auth) \<and> \<not> populated (config_file auth)"
  then show eq: "blockToAuthConfig e auth =
        Inr \<lparr>Username = [], Password = [], Auth = [], Email = [],
             ServerAddress = normalizeRegistryAddress (address auth),
             IdentityToken = [], RegistryToken = []\<rparr>"
    by (simp add: blockToAuthConfig_def Let_def zeroAuthConfig_def)
  show "providerSetToRegistryAuth e [auth] =
        Inr [(normalizeRegistryAddress (address auth),
              \<lparr>Username = [], Password = [], Auth = [], Email = [],
               ServerAddress = normalizeRegistryAddress (address auth),
               IdentityToken = [], RegistryToken = []\<rparr>)]"
    by (simp add: providerSetToRegistryAuth_def eq)
qed

theorem resolution_mode_precedence_witness:
  "username inlineBlock = Some ''u'' \<and> ''u'' \<noteq> [] \<and> password inlineBlock = [] \<and>
   config_file inlineBlock = Some ''~/.docker/config.json'' \<and>
   blockToAuthConfig exampleEnv inlineBlock =
     Inr \<lparr>Username = ''u'', Password = [], Auth = [], Email = [],
          ServerAddress = ''reg.example.com'', IdentityToken = [], RegistryToken = []\<rparr> \<and>
   blockToAuthConfig (exampleEnv\<lparr>osOpen := \<lambda>name. Inl ''permission denied''\<rparr>) inlineBlock =
     blockToAuthConfig exampleEnv inlineBlock \<and>
   \<not> populated (username missingFileBlock) \<and>
   config_file missingFileBlock = Some ''/nowhere.json'' \<and>
   blockToAuthConfig exampleEnv missingFileBlock =
     Inl (OpenError ''open /nowhere.json: no such file or directory'') \<and>
   \<not> populated (username bareBlock) \<and> \<not> populated (config_file bareBlock) \<and>
   providerSetToRegistryAuth exampleEnv [bareBlock] =
     Inr [(''reg.example.com'',
           \<lparr>Username = [], Password = [], Auth = [], Email = [],
            ServerAddress = ''reg.example.com'', IdentityToken = [], RegistryToken = []\<rparr>)]"
proof -
  have h1: "username inlineBlock = Some ''u'' \<and> ''u'' \<noteq> []"
    by (simp add: inlineBlock_def)
  have h1': "password inlineBlock = []" "config_file inlineBlock = Some ''~/.docker/config.json''"
    by (simp_all add: inlineBlock_def)
  have na: "normalizeRegistryAddress (address inlineBlock) = ''reg.example.com''"
    "normalizeRegistryAddress (address bareBlock) = ''reg.example.com''"
    by (simp_all add: inlineBlock_def bareBlock_def normalizeRegistryAddress_def)
  note i1 = resolution_mode_precedence
    [of inlineBlock "''u''" exampleEnv "exampleEnv\<lparr>osOpen := \<lambda>name. Inl ''permission denied''\<rparr>",
     THEN conjunct1, THEN mp, OF h1]
  have r1: "blockToAuthConfig exampleEnv inlineBlock =
     Inr \<lparr>Username = ''u'', Password = [], Auth = [], Email = [],
          ServerAddress = ''reg.example.com'', IdentityToken = [], RegistryToken = []\<rparr>"
    using i1 [THEN conjunct1] by (simp only: na h1')
  note r1' = i1 [THEN conjunct2]
  have h2: "\<not> populated (username missingFileBlock) \<and>
      config_file missingFileBlock = Some ''/nowhere.json'' \<and> ''/nowhere.json'' \<noteq> []"
    by (simp add: missingFileBlock_def populated_def)
  have h2': "expandHome exampleEnv ''/nowhere.json'' = Inr ''/nowhere.json'' \<and>
      osOpen exampleEnv ''/nowhere.json'' = Inl ''open /nowhere.json: no such file or directory''"
    by (simp add: example_paths example_files)
  note r2 = resolution_mode_precedence
    [of missingFileBlock _ exampleEnv _ "''/nowhere.json''",
     THEN conjunct2, THEN conjunct1, THEN mp, OF h2, THEN conjunct2,
     THEN spec, THEN spec, THEN mp, OF h2']
  have h3: "\<not> populated (username bareBlock) \<and> \<not> populated (config_file bareBlock)"
    by (simp add: bareBlock_def populated_def)
  have r3: "providerSetToRegistryAuth exampleEnv [bareBlock] =
     Inr [(''reg.example.com'',
           \<lparr>Username = [], Password = [], Auth = [], Email = [],
            ServerAddress = ''reg.example.com'', IdentityToken = [], RegistryToken = []\<rparr>)]"
    using resolution_mode_precedence
      [of bareBlock _ exampleEnv, THEN conjunct2, THEN conjunct2, THEN mp, OF h3, THEN conjunct2]
    by (simp only: na)
  show ?thesis
    by (intro conjI)
       (rule h1 [THEN conjunct1] h1 [THEN conjunct2] h1' r1 r1' h2 [THEN conjunct1]
          h2 [THEN conjunct2, THEN conjunct1] r2 h3 [THEN conjunct1] h3 [THEN conjunct2] r3)+
qed

text \<open>
  C3: the two shapes are tried in order. The wrapped shape is used exactly when it
  unmarshals without error to a non-empty \<^verbatim>\<open>auths\<close> map; in every other case the same
  bytes are unmarshalled as the flat map, and the error of that second attempt, if
  any, is the error of the parser, with the message of the JSON library.
\<close>

theorem parseDockerConfig_two_shapes:
  "(unmarshalWrapper e byteData = Inr auths \<and> auths \<noteq> [] \<longrightarrow>
      parseDockerConfig e byteData = Inr auths) \<and>
   (\<not> (\<exists>auths'. unmarshalWrapper e byteData = Inr auths' \<and> auths' \<noteq> []) \<and>
    unmarshalConfs e byteData = Inr confs \<longrightarrow>
      parseDockerConfig e byteData = Inr confs) \<and>
   (\<not> (\<exists>auths'. unmarshalWrapper e byteData = Inr auths' \<and> auths' \<noteq> []) \<and>
    unmarshalConfs e byteData = Inl msg \<longrightarrow>
      parseDockerConfig e byteData = Inl (UnmarshalError msg))"
  by (auto simp: parseDockerConfig_def split: sum.splits)

theorem parseDockerConfig_two_shapes_witness:
  "unmarshalWrapper exampleEnv wrappedFile = Inr wrappedConfs \<and> wrappedConfs \<noteq> [] \<and>
   parseDockerConfig exampleEnv wrappedFile = Inr wrappedConfs \<and>
   unmarshalWrapper exampleEnv flatFile = Inr [] \<and>
   unmarshalConfs exampleEnv flatFile = Inr flatConfs \<and>
   parseDockerConfig exampleEnv flatFile = Inr flatConfs \<and>
   unmarshalWrapper exampleEnv brokenFile = Inl ''unexpected end of JSON input'' \<and>
   unmarshalConfs exampleEnv brokenFile = Inl ''unexpected end of JSON input'' \<and>
   parseDockerConfig exampleEnv brokenFile =
     Inl (UnmarshalError ''unexpected end of JSON input'')"
proof -
  have w1: "unmarshalWrapper exampleEnv wrappedFile = Inr wrappedConfs"
    and w2: "unmarshalWrapper exampleEnv flatFile = Inr []"
    and w3: "unmarshalWrapper exampleEnv brokenFile = Inl ''unexpected end of JSON input''"
    and f2: "unmarshalConfs exampleEnv flatFile = Inr flatConfs"
    and f3: "unmarshalConfs exampleEnv brokenFile = Inl ''unexpected end of JSON input''"
    by (simp_all add: exampleEnv_def wrappedFile_def flatFile_def badEntryFile_def
          brokenFile_def)
  have ne: "wrappedConfs \<noteq> []" by (simp add: wrappedConfs_def)
  have n2: "\<not> (\<exists>auths'. unmarshalWrapper exampleEnv flatFile = Inr auths' \<and> auths' \<noteq> [])"
    by (simp add: w2)
  have n3: "\<not> (\<exists>auths'. unmarshalWrapper exampleEnv brokenFile = Inr auths' \<and> auths' \<noteq> [])"
    by (simp add: w3)
  note r1 = parseDockerConfig_two_shapes
    [of exampleEnv wrappedFile wrappedConfs, THEN conjunct1, THEN mp, OF conjI [OF w1 ne]]
  note r2 = parseDockerConfig_two_shapes
    [of exampleEnv flatFile _ flatConfs, THEN conjunct2, THEN conjunct1, THEN mp,
     OF conjI [OF n2 f2]]
  note r3 = parseDockerConfig_two_shapes
    [of exampleEnv brokenFile _ _ "''unexpected end of JSON input''",
     THEN conjunct2, THEN conjunct2, THEN mp, OF conjI [OF n3 f3]]
  show ?thesis
    by (intro conjI) (rule w1 ne r1 w2 f2 r2 w3 f3 r3)+
qed

text \<open>
  C5: resolution is all or nothing. The first block that fails gives the error of the
  whole resolution, whatever blocks follow it; when every block resolves, the result
  is a map whose keys are the normalized addresses of all the blocks; and an error of
  the resolution is always the error of a first failing block.
\<close>

theorem resolution_all_or_nothing:
  "((\<forall>a \<in> set pre. \<exists>ac. blockToAuthConfig e a = Inr ac) \<and> blockToAuthConfig e auth = Inl err
      \<longrightarrow> providerSetToRegistryAuth e (pre @ auth # post) = Inl err) \<and>
   ((\<forall>a \<in> set authSet. \<exists>ac. blockToAuthConfig e a = Inr ac)
      \<longrightarrow> (\<exists>configs. providerSetToRegistryAuth e authSet = Inr configs \<and>
             fst ` set configs = (\<lambda>a. normalizeRegistryAddress (address a)) ` set authSet)) \<and>
   (providerSetToRegistryAuth e authSet = Inl err'
      \<longrightarrow> (\<exists>pre' a post'. authSet = pre' @ a # post' \<and>
             (\<forall>b \<in> set pre'. \<exists>ac. blockToAuthConfig e b = Inr ac) \<and>
             blockToAuthConfig e a = Inl err'))"
proof (intro conjI impI)
  assume a: "(\<forall>a \<in> set pre. \<exists>ac. blockToAuthConfig e a = Inr ac) \<and> blockToAuthConfig e auth = Inl err"
  then obtain c where "registryAuthLoop e pre [] = Inr c"
    using registryAuthLoop_all_ok[of pre e "[]"] by blast
  with a show "providerSetToRegistryAuth e (pre @ auth # post) = Inl err"
    by (simp add: providerSetToRegistryAuth_def registryAuthLoop_append)
next
  assume "\<forall>a \<in> set authSet. \<exists>ac. blockToAuthConfig e a = Inr ac"
  then obtain configs where run: "registryAuthLoop e authSet [] = Inr configs"
    using registryAuthLoop_all_ok[of authSet e "[]"] by blast
  from registryAuthLoop_keys[OF run] run
  show "\<exists>configs. providerSetToRegistryAuth e authSet = Inr configs \<and>
             fst ` set configs = (\<lambda>a. normalizeRegistryAddress (address a)) ` set authSet"
    by (simp add: providerSetToRegistryAuth_def)
next
  assume "providerSetToRegistryAuth e authSet = Inl err'"
  then show "\<exists>pre' a post'. authSet = pre' @ a # post' \<and>
             (\<forall>b \<in> set pre'. \<exists>ac. blockToAuthConfig e b = Inr ac) \<and>
             blockToAuthConfig e a = Inl err'"
    unfolding providerSetToRegistryAuth_def by (rule registryAuthLoop_first_error)
qed

theorem resolution_all_or_nothing_witness:
  "(\<exists>ac. blockToAuthConfig exampleEnv inlineBlock = Inr ac) \<and>
   blockToAuthConfig exampleEnv missingFileBlock =
     Inl (OpenError ''open /nowhere.json: no such file or directory'') \<and>
   providerSetToRegistryAuth exampleEnv ([inlineBlock] @ missingFileBlock # [bareBlock]) =
     Inl (OpenError ''open /nowhere.json: no such file or directory'') \<and>
   (\<exists>ac. blockToAuthConfig exampleEnv flatFileBlock = Inr ac) \<and>
   (\<exists>configs. providerSetToRegistryAuth exampleEnv [inlineBlock, flatFileBlock] = Inr configs \<and>
      fst ` set configs =
        (\<lambda>a. normalizeRegistryAddress (address a)) ` set [inlineBlock, flatFileBlock]) \<and>
   providerSetToRegistryAuth exampleEnv [inlineBlock, missingFileBlock, bareBlock] =
     Inl (OpenError ''open /nowhere.json: no such file or directory'') \<and>
   (\<exists>pre' a post'. [inlineBlock, missingFileBlock, bareBlock] = pre' @ a # post' \<and>
      (\<forall>b \<in> set pre'. \<exists>ac. blockToAuthConfig exampleEnv b = Inr ac) \<and>
      blockToAuthConfig exampleEnv a =
        Inl (OpenError ''open /nowhere.json: no such file or directory''))"
proof -
  have i: "\<exists>ac. blockToAuthConfig exampleEnv inlineBlock = Inr ac"
    and f: "\<exists>ac. blockToAuthConfig exampleEnv flatFileBlock = Inr ac"
    by (simp_all add: example_blocks)
  note ok1 = example_all_ok(1) and ok2 = example_all_ok(2)
  note bad = example_blocks(6) and fails = example_resolutions(2)
  note r1 = resolution_all_or_nothing
    [of "[inlineBlock]" exampleEnv missingFileBlock _ "[bareBlock]",
     THEN conjunct1, THEN mp, OF conjI [OF ok1 bad]]
  note r2 = resolution_all_or_nothing
    [of _ exampleEnv _ _ _ "[inlineBlock, flatFileBlock]",
     THEN conjunct2, THEN conjunct1, THEN mp, OF ok2]
  note r3 = resolution_all_or_nothing
    [of _ exampleEnv _ _ _ "[inlineBlock, missingFileBlock, bareBlock]",
     THEN conjunct2, THEN conjunct2, THEN mp, OF fails]
  show ?thesis
    by (intro conjI) (rule i bad r1 f r2 fails r3)+
qed

text \<open>
  C6: when several blocks have the same normalized address, the map holds under that
  address exactly the record of the last of them, whatever the earlier blocks were;
  there is one entry per key.
\<close>

theorem later_block_replaces_record:
  assumes "providerSetToRegistryAuth e (pre @ auth # post) = Inr configs"
    and "\<forall>a \<in> set post.
           normalizeRegistryAddress (address a) \<noteq> normalizeRegistryAddress (address auth)"
  shows "\<exists>ac. blockToAuthConfig e auth = Inr ac \<and>
           map_of configs (normalizeRegistryAddress (address auth)) = Some ac \<and>
           distinct (map fst configs)"
proof -
  from assms(1) obtain c1 where pre: "registryAuthLoop e pre [] = Inr c1"
    and rest: "registryAuthLoop e (auth # post) c1 = Inr configs"
    by (auto simp: providerSetToRegistryAuth_def registryAuthLoop_append split: sum.splits)
  from rest obtain ac where ac: "blockToAuthConfig e auth = Inr ac"
    and run: "registryAuthLoop e post (AList.update (ServerAddress ac) ac c1) = Inr configs"
    by (auto split: sum.splits)
  have key: "ServerAddress ac = normalizeRegistryAddress (address auth)"
    by (rule blockToAuthConfig_ServerAddress[OF ac])
  from registryAuthLoop_other[OF run assms(2)]
  have "map_of configs (normalizeRegistryAddress (address auth)) = Some ac"
    by (simp add: update_conv' key)
  moreover from assms(1) have "distinct (map fst configs)"
    unfolding providerSetToRegistryAuth_def by (rule registryAuthLoop_distinct) simp
  ultimately show ?thesis using ac by blast
qed

theorem later_block_replaces_record_witness:
  "providerSetToRegistryAuth exampleEnv ([inlineBlock] @ bareBlock # [flatFileBlock]) =
     Inr [(''reg.example.com'',
           \<lparr>Username = [], Password = [], Auth = [], Email = [],
            ServerAddress = ''reg.example.com'', IdentityToken = [], RegistryToken = []\<rparr>),
          (''reg'',
           \<lparr>Username = ''u2'', Password = ''p2'', Auth = [], Email = [],
            ServerAddress = ''reg'', IdentityToken = [], RegistryToken = []\<rparr>)] \<and>
   normalizeRegistryAddress (address inlineBlock) = normalizeRegistryAddress (address bareBlock) \<and>
   normalizeRegistryAddress (address flatFileBlock) \<noteq>
     normalizeRegistryAddress (address bareBlock) \<and>
   (\<exists>ac. blockToAuthConfig exampleEnv bareBlock = Inr ac \<and>
      map_of [(''reg.example.com'',
               \<lparr>Username = [], Password = [], Auth = [], Email = [],
                ServerAddress = ''reg.example.com'', IdentityToken = [], RegistryToken = []\<rparr>),
              (''reg'',
               \<lparr>Username = ''u2'', Password = ''p2'', Auth = [], Email = [],
                ServerAddress = ''reg'', IdentityToken = [], RegistryToken = []\<rparr>)]
        (normalizeRegistryAddress (address bareBlock)) = Some ac \<and>
      distinct (map fst
        [(''reg.example.com'',
          \<lparr>Username = [], Password = [], Auth = [], Email = [],
           ServerAddress = ''reg.example.com'', IdentityToken = [], RegistryToken = []\<rparr>),
         (''reg'',
          \<lparr>Username = ''u2'', Password = ''p2'', Auth = [], Email = [],
           ServerAddress = ''reg'', IdentityToken = [], RegistryToken = []\<rparr>)]))"
proof -
  have run: "providerSetToRegistryAuth exampleEnv ([inlineBlock] @ bareBlock # [flatFileBlock]) =
     Inr [(''reg.example.com'',
           \<lparr>Username = [], Password = [], Auth = [], Email = [],
            ServerAddress = ''reg.example.com'', IdentityToken = [], RegistryToken = []\<rparr>),
          (''reg'',
           \<lparr>Username = ''u2'', Password = ''p2'', Auth = [], Email = [],
            ServerAddress = ''reg'', IdentityToken = [], RegistryToken = []\<rparr>)]"
    using example_resolutions(1) by simp
  have same: "normalizeRegistryAddress (address inlineBlock) =
      normalizeRegistryAddress (address bareBlock)"
    by (simp only: example_addresses)
  have others: "\<forall>a \<in> set [flatFileBlock].
      normalizeRegistryAddress (address a) \<noteq> normalizeRegistryAddress (address bareBlock)"
    by (simp add: example_addresses)
  have other: "normalizeRegistryAddress (address flatFileBlock) \<noteq>
      normalizeRegistryAddress (address bareBlock)"
    by (simp add: example_addresses)
  note r = later_block_replaces_record [OF run others]
  show ?thesis
    by (intro conjI) (rule run same other r)+
qed

text \<open>
  C7: an entry whose \<^verbatim>\<open>auth\<close> is empty is skipped. Leaving such entries out changes
  neither the result nor the error of \<open>authConfigs\<close>, and they are absent from the map
  returned; every entry with a non-empty \<^verbatim>\<open>auth\<close> is decoded and is in that map under
  its own key, not normalized, which is also its \<open>ServerAddress\<close>.
\<close>

theorem authConfigs_skips_empty_auth:
  "authConfigs (filter (\<lambda>(reg, conf). confAuth conf \<noteq> []) confs) = authConfigs confs \<and>
   (distinct (map fst confs) \<and> authConfigs confs = Inr m \<longrightarrow>
      (\<forall>(reg, conf) \<in> set confs.
         if confAuth conf = [] then map_of m reg = None
         else \<exists>userpass. decodeUserpass (confAuth conf) = Inr userpass \<and>
                length userpass = 2 \<and>
                map_of m reg =
                  Some \<lparr>Username = userpass ! 0, Password = userpass ! 1,
                        Auth = confAuth conf, Email = confEmail conf, ServerAddress = reg,
                        IdentityToken = [], RegistryToken = []\<rparr>) \<and>
      (\<forall>reg. reg \<notin> fst ` set confs \<longrightarrow> map_of m reg = None))"
proof (intro conjI impI)
  show "authConfigs (filter (\<lambda>(reg, conf). confAuth conf \<noteq> []) confs) = authConfigs confs"
    by (simp add: authConfigs_def authConfigsLoop_filter)
next
  assume a: "distinct (map fst confs) \<and> authConfigs confs = Inr m"
  then have d: "distinct (map fst confs)" and run: "authConfigsLoop confs [] = Inr m"
    by (simp_all add: authConfigs_def)
  note look = authConfigsLoop_lookup[OF run d]
  show "\<forall>(reg, conf) \<in> set confs.
         if confAuth conf = [] then map_of m reg = None
         else \<exists>userpass. decodeUserpass (confAuth conf) = Inr userpass \<and>
                length userpass = 2 \<and>
                map_of m reg =
                  Some \<lparr>Username = userpass ! 0, Password = userpass ! 1,
                        Auth = confAuth conf, Email = confEmail conf, ServerAddress = reg,
                        IdentityToken = [], RegistryToken = []\<rparr>"
  proof (clarify)
    fix reg conf
    assume mem: "(reg, conf) \<in> set confs"
    with d have at: "map_of confs reg = Some conf" by simp
    show "if confAuth conf = [] then map_of m reg = None
         else \<exists>userpass. decodeUserpass (confAuth conf) = Inr userpass \<and>
                length userpass = 2 \<and>
                map_of m reg =
                  Some \<lparr>Username = userpass ! 0, Password = userpass ! 1,
                        Auth = confAuth conf, Email = confEmail conf, ServerAddress = reg,
                        IdentityToken = [], RegistryToken = []\<rparr>"
    proof (cases "confAuth conf = []")
      case True
      with look[of reg] at show ?thesis by simp
    next
      case False
      have "\<exists>userpass. decodeUserpass (confAuth conf) = Inr userpass"
      proof (cases "decodeUserpass (confAuth conf)")
        case (Inl err0)
        from authConfigsLoop_error[OF mem False Inl, of "[]"] run show ?thesis by auto
      next
        case (Inr userpass)
        then show ?thesis by blast
      qed
      then obtain userpass where up: "decodeUserpass (confAuth conf) = Inr userpass" ..
      then have "length userpass = 2"
        by (auto simp: decodeUserpass_def Let_def split: sum.splits if_splits)
      with look[of reg] at False up show ?thesis by simp
    qed
  qed
  show "\<forall>reg. reg \<notin> fst ` set confs \<longrightarrow> map_of m reg = None"
  proof (intro allI impI)
    fix reg
    assume "reg \<notin> fst ` set confs"
    then have "map_of confs reg = None" by (simp add: map_of_eq_None_iff)
    with look[of reg] show "map_of m reg = None" by simp
  qed
qed

theorem authConfigs_skips_empty_auth_witness:
  "distinct (map fst wrappedConfs) \<and>
   authConfigs wrappedConfs =
     Inr [(''reg.example.com'',
           \<lparr>Username = ''user'', Password = ''pass'', Auth = ''dXNlcjpwYXNz'',
            Email = ''me@example.com'', ServerAddress = ''reg.example.com'',
            IdentityToken = [], RegistryToken = []\<rparr>)] \<and>
   (''other.example.com/'', \<lparr>confAuth = [], confEmail = []\<rparr>) \<in> set wrappedConfs \<and>
   map_of [(''reg.example.com'',
           \<lparr>Username = ''user'', Password = ''pass'', Auth = ''dXNlcjpwYXNz'',
            Email = ''me@example.com'', ServerAddress = ''reg.example.com'',
            IdentityToken = [], RegistryToken = []\<rparr>)] ''other.example.com/'' = None \<and>
   (''reg.example.com'', \<lparr>confAuth = ''dXNlcjpwYXNz'', confEmail = ''me@example.com''\<rparr>)
     \<in> set wrappedConfs \<and>
   (\<exists>userpass. decodeUserpass ''dXNlcjpwYXNz'' = Inr userpass \<and> length userpass = 2 \<and>
      map_of [(''reg.example.com'',
           \<lparr>Username = ''user'', Password = ''pass'', Auth = ''dXNlcjpwYXNz'',
            Email = ''me@example.com'', ServerAddress = ''reg.example.com'',
            IdentityToken = [], RegistryToken = []\<rparr>)] ''reg.example.com'' =
        Some \<lparr>Username = userpass ! 0, Password = userpass ! 1, Auth = ''dXNlcjpwYXNz'',
              Email = ''me@example.com'', ServerAddress = ''reg.example.com'',
              IdentityToken = [], RegistryToken = []\<rparr>) \<and>
   map_of [(''reg.example.com'',
           \<lparr>Username = ''user'', Password = ''pass'', Auth = ''dXNlcjpwYXNz'',
            Email = ''me@example.com'', ServerAddress = ''reg.example.com'',
            IdentityToken = [], RegistryToken = []\<rparr>)] ''elsewhere.example.com'' = None"
proof -
  have d: "distinct (map fst wrappedConfs)" by (simp add: wrappedConfs_def)
  have run: "authConfigs wrappedConfs =
     Inr [(''reg.example.com'',
           \<lparr>Username = ''user'', Password = ''pass'', Auth = ''dXNlcjpwYXNz'',
            Email = ''me@example.com'', ServerAddress = ''reg.example.com'',
            IdentityToken = [], RegistryToken = []\<rparr>)]"
    by (simp add: authConfigs_def wrappedConfs_def decodeUserpass_def SplitN2_def
          example_decodes)
  have mem1: "(''other.example.com/'', \<lparr>confAuth = [], confEmail = []\<rparr>) \<in> set wrappedConfs"
    and mem2: "(''reg.example.com'',
        \<lparr>confAuth = ''dXNlcjpwYXNz'', confEmail = ''me@example.com''\<rparr>) \<in> set wrappedConfs"
    and mem3: "''elsewhere.example.com'' \<notin> fst ` set wrappedConfs"
    by (simp_all add: wrappedConfs_def)
  note r = authConfigs_skips_empty_auth
    [of wrappedConfs, THEN conjunct2, THEN mp, OF conjI [OF d run]]
  have e1: "map_of [(''reg.example.com'',
           \<lparr>Username = ''user'', Password = ''pass'', Auth = ''dXNlcjpwYXNz'',
            Email = ''me@example.com'', ServerAddress = ''reg.example.com'',
            IdentityToken = [], RegistryToken = []\<rparr>)] ''other.example.com/'' = None"
    using r [THEN conjunct1, THEN bspec, OF mem1] by simp
  have e2: "\<exists>userpass. decodeUserpass ''dXNlcjpwYXNz'' = Inr userpass \<and> length userpass = 2 \<and>
      map_of [(''reg.example.com'',
           \<lparr>Username = ''user'', Password = ''pass'', Auth = ''dXNlcjpwYXNz'',
            Email = ''me@example.com'', ServerAddress = ''reg.example.com'',
            IdentityToken = [], RegistryToken = []\<rparr>)] ''reg.example.com'' =
        Some \<lparr>Username = userpass ! 0, Password = userpass ! 1, Auth = ''dXNlcjpwYXNz'',
              Email = ''me@example.com'', ServerAddress = ''reg.example.com'',
              IdentityToken = [], RegistryToken = []\<rparr>"
    using r [THEN conjunct1, THEN bspec, OF mem2] by simp
  note e3 = r [THEN conjunct2, THEN spec, THEN mp, OF mem3]
  show ?thesis
    by (intro conjI) (rule d run mem1 e1 mem2 e2 e3)+
qed

text \<open>
  C9: a block resolved from a file carries the user name and the password of an entry of
  the file whose normalized key is the normalized address of the block, and nothing
  else of that entry: the e-mail address and the packed auth string stay empty, and the
  server address is the normalized address of the block.
\<close>

theorem config_file_block_frame:
  assumes "\<not> populated (username auth)" and "populated (config_file auth)"
    and "blockToAuthConfig e auth = Inr ac"
  shows "ServerAddress ac = normalizeRegistryAddress (address auth) \<and>
         Email ac = [] \<and> Auth ac = [] \<and> IdentityToken ac = [] \<and> RegistryToken ac = [] \<and>
         (\<exists>configFile filePath r auths registry authFileConfig.
            config_file auth = Some configFile \<and>
            expandHome e configFile = Inr filePath \<and> osOpen e filePath = Inr r \<and>
            newAuthConfigurations e r = Inr auths \<and>
            (registry, authFileConfig) \<in> set (rangeConfigs e auths) \<and>
            normalizeRegistryAddress registry = normalizeRegistryAddress (address auth) \<and>
            Username ac = Username authFileConfig \<and> Password ac = Password authFileConfig)"
proof -
  let ?ac0 = "zeroAuthConfig\<lparr>ServerAddress := normalizeRegistryAddress (address auth)\<rparr>"
  let ?P = "\<lambda>(registry, _::AuthConfig). ServerAddress ?ac0 = normalizeRegistryAddress registry"
  from assms(2) obtain configFile where cf: "config_file auth = Some configFile"
    by (auto simp: populated_def split: option.splits)
  with assms have "fromConfigFile e ?ac0 configFile = Inr ac"
    by (simp add: blockToAuthConfig_def Let_def)
  from fromConfigFile_Inr[OF this] obtain filePath r auths where
    f: "expandHome e configFile = Inr filePath" "osOpen e filePath = Inr r"
       "newAuthConfigurations e r = Inr auths"
    and ne: "filter ?P (rangeConfigs e auths) \<noteq> []"
    and ac: "ac = ?ac0\<lparr>Username := Username (snd (last (filter ?P (rangeConfigs e auths)))),
                       Password := Password (snd (last (filter ?P (rangeConfigs e auths))))\<rparr>"
    by blast
  obtain registry authFileConfig where l: "last (filter ?P (rangeConfigs e auths)) = (registry, authFileConfig)"
    by (cases "last (filter ?P (rangeConfigs e auths))")
  from last_in_set[OF ne] l have "(registry, authFileConfig) \<in> set (filter ?P (rangeConfigs e auths))"
    by simp
  then have mem: "(registry, authFileConfig) \<in> set (rangeConfigs e auths)"
    and key: "normalizeRegistryAddress registry = normalizeRegistryAddress (address auth)"
    by auto
  from ac l have "Username ac = Username authFileConfig" "Password ac = Password authFileConfig"
    "ServerAddress ac = normalizeRegistryAddress (address auth)"
    "Email ac = []" "Auth ac = []" "IdentityToken ac = []" "RegistryToken ac = []"
    by (simp_all add: zeroAuthConfig_def)
  with cf f mem key show ?thesis by blast
qed

theorem config_file_block_frame_witness:
  "\<not> populated (username homeFileBlock) \<and> populated (config_file homeFileBlock) \<and>
   blockToAuthConfig exampleEnv homeFileBlock =
     Inr \<lparr>Username = ''user'', Password = ''pass'', Auth = [], Email = [],
          ServerAddress = ''reg.example.com'', IdentityToken = [], RegistryToken = []\<rparr> \<and>
   newAuthConfigurations exampleEnv wrappedFile =
     Inr [(''reg.example.com'',
           \<lparr>Username = ''user'', Password = ''pass'', Auth = ''dXNlcjpwYXNz'',
            Email = ''me@example.com'', ServerAddress = ''reg.example.com'',
            IdentityToken = [], RegistryToken = []\<rparr>)] \<and>
   ServerAddress \<lparr>Username = ''user'', Password = ''pass'', Auth = [], Email = [],
          ServerAddress = ''reg.example.com'', IdentityToken = [], RegistryToken = []\<rparr> = normalizeRegistryAddress (address homeFileBlock) \<and>
   Email \<lparr>Username = ''user'', Password = ''pass'', Auth = [], Email = [],
          ServerAddress = ''reg.example.com'', IdentityToken = [], RegistryToken = []\<rparr> = [] \<and>
   Auth \<lparr>Username = ''user'', Password = ''pass'', Auth = [], Email = [],
          ServerAddress = ''reg.example.com'', IdentityToken = [], RegistryToken = []\<rparr> = [] \<and>
   (\<exists>configFile filePath r auths registry authFileConfig.
      config_file homeFileBlock = Some configFile \<and>
      expandHome exampleEnv configFile = Inr filePath \<and> osOpen exampleEnv filePath = Inr r \<and>
      newAuthConfigurations exampleEnv r = Inr auths \<and>
      (registry, authFileConfig) \<in> set (rangeConfigs exampleEnv auths) \<and>
      normalizeRegistryAddress registry = normalizeRegistryAddress (address homeFileBlock) \<and>
      Username \<lparr>Username = ''user'', Password = ''pass'', Auth = [], Email = [],
          ServerAddress = ''reg.example.com'', IdentityToken = [], RegistryToken = []\<rparr> = Username authFileConfig \<and>
      Password \<lparr>Username = ''user'', Password = ''pass'', Auth = [], Email = [],
          ServerAddress = ''reg.example.com'', IdentityToken = [], RegistryToken = []\<rparr> = Password authFileConfig)"
proof -
  have u: "\<not> populated (username homeFileBlock)"
    and c: "populated (config_file homeFileBlock)"
    by (simp_all add: populated_def homeFileBlock_def)
  note r = config_file_block_frame [OF u c example_blocks(2)]
  show ?thesis
    by (intro conjI)
       (rule u c example_blocks(2) example_parses(1) r [THEN conjunct1]
          r [THEN conjunct2, THEN conjunct1]
          r [THEN conjunct2, THEN conjunct2, THEN conjunct1]
          r [THEN conjunct2, THEN conjunct2, THEN conjunct2, THEN conjunct2, THEN conjunct2])+
qed

text \<open>
  C10: the parser decodes every entry before the resolver looks anything up. If some
  entry of the file has a non-empty \<^verbatim>\<open>auth\<close> that is not base64 or decodes to bytes
  without a colon, a block that is resolved from that file fails with the decoding
  error of such an entry (the first one visited), whatever address the block asks for
  and whatever the other entries are.
\<close>

theorem malformed_entry_fails_whole_file:
  assumes "\<not> populated (username auth)"
    and "config_file auth = Some configFile" and "configFile \<noteq> []"
    and "expandHome e configFile = Inr filePath" and "osOpen e filePath = Inr r"
    and "parseDockerConfig e r = Inr confs"
    and "(reg, conf) \<in> set confs" and "confAuth conf \<noteq> []"
    and "(\<exists>err0. DecodeString (confAuth conf) = Inl err0) \<or>
         (\<exists>data. DecodeString (confAuth conf) = Inr data \<and> CHR '':'' \<notin> set data)"
  shows "\<exists>reg' conf' err. (reg', conf') \<in> set confs \<and> confAuth conf' \<noteq> [] \<and>
           decodeUserpass (confAuth conf') = Inl err \<and>
           (err = CorruptInputError \<or> err = ErrCannotParseDockercfg) \<and>
           blockToAuthConfig e auth = Inl (ParseError err)"
proof -
  from assms(9) obtain err0 where "decodeUserpass (confAuth conf) = Inl err0"
    by (auto simp: decodeUserpass_def SplitN2_def)
  from authConfigsLoop_error[OF assms(7,8) this, of "[]"]
  obtain reg' conf' err where bad: "(reg', conf') \<in> set confs" "confAuth conf' \<noteq> []"
    "decodeUserpass (confAuth conf') = Inl err" and run: "authConfigsLoop confs [] = Inl err"
    by blast
  from bad(3) have kind: "err = CorruptInputError \<or> err = ErrCannotParseDockercfg"
    by (auto simp: decodeUserpass_def Let_def split: sum.splits if_splits
             dest: DecodeString_error)
  from run assms(6) have "newAuthConfigurations e r = Inl err"
    by (simp add: newAuthConfigurations_def authConfigs_def)
  with assms(4,5) have "fromConfigFile e
      (zeroAuthConfig\<lparr>ServerAddress := normalizeRegistryAddress (address auth)\<rparr>) configFile
        = Inl (ParseError err)"
    by (simp add: fromConfigFile_def)
  with assms(1,2,3) have "blockToAuthConfig e auth = Inl (ParseError err)"
    by (simp add: blockToAuthConfig_def populated_def Let_def)
  with bad kind show ?thesis by blast
qed

theorem malformed_entry_fails_whole_file_witness:
  "\<not> populated (username badFileBlock) \<and>
   config_file badFileBlock = Some ''/etc/docker/bad.json'' \<and>
   osOpen exampleEnv ''/etc/docker/bad.json'' = Inr badEntryFile \<and>
   parseDockerConfig exampleEnv badEntryFile = Inr badEntryConfs \<and>
   (''bad.example.com'', \<lparr>confAuth = ''bm9jb2xvbg=='', confEmail = []\<rparr>) \<in> set badEntryConfs \<and>
   DecodeString ''bm9jb2xvbg=='' = Inr ''nocolon'' \<and> CHR '':'' \<notin> set ''nocolon'' \<and>
   (''reg.example.com'', \<lparr>confAuth = ''dXNlcjpwYXNz'', confEmail = []\<rparr>) \<in> set badEntryConfs \<and>
   normalizeRegistryAddress ''reg.example.com'' = normalizeRegistryAddress (address badFileBlock) \<and>
   decodeUserpass ''dXNlcjpwYXNz'' = Inr [''user'', ''pass''] \<and>
   (\<exists>reg' conf' err. (reg', conf') \<in> set badEntryConfs \<and> confAuth conf' \<noteq> [] \<and>
      decodeUserpass (confAuth conf') = Inl err \<and>
      (err = CorruptInputError \<or> err = ErrCannotParseDockercfg) \<and>
      blockToAuthConfig exampleEnv badFileBlock = Inl (ParseError err))"
proof -
  have u: "\<not> populated (username badFileBlock)"
    and c: "config_file badFileBlock = Some ''/etc/docker/bad.json''"
    by (simp_all add: populated_def badFileBlock_def)
  have ne: "''/etc/docker/bad.json'' \<noteq> []" by simp
  have parse: "parseDockerConfig exampleEnv badEntryFile = Inr badEntryConfs"
    by (simp add: parseDockerConfig_def exampleEnv_def wrappedFile_def flatFile_def
          badEntryFile_def badEntryConfs_def)
  have mem: "(''bad.example.com'', \<lparr>confAuth = ''bm9jb2xvbg=='', confEmail = []\<rparr>)
      \<in> set badEntryConfs"
    and good: "(''reg.example.com'', \<lparr>confAuth = ''dXNlcjpwYXNz'', confEmail = []\<rparr>)
      \<in> set badEntryConfs"
    by (simp_all add: badEntryConfs_def)
  have ne': "confAuth \<lparr>confAuth = ''bm9jb2xvbg=='', confEmail = []\<rparr> \<noteq> []" by simp
  have nocolon: "CHR '':'' \<notin> set ''nocolon''" by simp
  have bad: "(\<exists>err0. DecodeString (confAuth \<lparr>confAuth = ''bm9jb2xvbg=='', confEmail = []\<rparr>) = Inl err0) \<or>
      (\<exists>data. DecodeString (confAuth \<lparr>confAuth = ''bm9jb2xvbg=='', confEmail = []\<rparr>) = Inr data \<and>
         CHR '':'' \<notin> set data)"
    by (simp add: example_decodes)
  have key: "normalizeRegistryAddress ''reg.example.com'' =
      normalizeRegistryAddress (address badFileBlock)"
    by (simp add: badFileBlock_def)
  have dec: "decodeUserpass ''dXNlcjpwYXNz'' = Inr [''user'', ''pass'']"
    by (simp add: decodeUserpass_def SplitN2_def example_decodes)
  note r = malformed_entry_fails_whole_file
    [OF u c ne example_paths(3) example_files(3) parse mem ne' bad]
  show ?thesis
    by (intro conjI)
       (rule u c example_files(3) parse mem example_decodes(4) nocolon good key dec r)+
qed

end
